theory Spec2Isabelle
  imports Complex_Main "HOL-Library.Sublist"
begin

section \<open>Python values used by the extractor\<close>

text \<open>
  Python text is modelled as \<^typ>\<open>string\<close>, the UTF-8 bytes of the text. A character is a
  byte that is not a continuation byte together with the continuation bytes after it. A
  byte-wise search for the UTF-8 sequence of a word finds exactly the occurrences of the
  word, so searching and replacing work on the bytes; trimming and case mapping work on
  the characters.
\<close>

datatype py_error =
    ValueError | TypeError | AttributeError | KeyError
  | FileNotFoundError | RequestException | OtherException

definition euro :: string where
  "euro = [CHR 0xE2, CHR 0x82, CHR 0xAC]"

definition is_cont :: "char \<Rightarrow> bool" where
  "is_cont c \<longleftrightarrow> (128::nat) \<le> of_char c \<and> of_char c < (192::nat)"

function chars :: "string \<Rightarrow> string list" where
  "chars [] = []"
| "chars (c # cs) = (c # takeWhile is_cont cs) # chars (dropWhile is_cont cs)"
  by pat_completeness auto
termination
  by (relation "measure length") (auto simp: le_imp_less_Suc length_dropWhile_le)

text \<open>
  The whitespace of C (\<^verbatim>\<open>isspace\<close>), the four separators that the methods of \<^verbatim>\<open>str\<close> count
  as whitespace too, and the whitespace characters beyond ASCII: U+0085, U+00A0, U+1680,
  U+2000 to U+200A, U+2028, U+2029, U+202F, U+205F and U+3000.
\<close>

definition c_whitespace :: "string list" where
  "c_whitespace = [[CHR 0x09], [CHR 0x0A], [CHR 0x0B], [CHR 0x0C], [CHR 0x0D], [CHR 0x20]]"

definition separators :: "string list" where
  "separators = [[CHR 0x1C], [CHR 0x1D], [CHR 0x1E], [CHR 0x1F]]"

definition wide_whitespace :: "string list" where
  "wide_whitespace =
     [[CHR 0xC2, CHR 0x85], [CHR 0xC2, CHR 0xA0], [CHR 0xE1, CHR 0x9A, CHR 0x80],
      [CHR 0xE2, CHR 0x80, CHR 0x80], [CHR 0xE2, CHR 0x80, CHR 0x81], [CHR 0xE2, CHR 0x80, CHR 0x82],
      [CHR 0xE2, CHR 0x80, CHR 0x83], [CHR 0xE2, CHR 0x80, CHR 0x84], [CHR 0xE2, CHR 0x80, CHR 0x85],
      [CHR 0xE2, CHR 0x80, CHR 0x86], [CHR 0xE2, CHR 0x80, CHR 0x87], [CHR 0xE2, CHR 0x80, CHR 0x88],
      [CHR 0xE2, CHR 0x80, CHR 0x89], [CHR 0xE2, CHR 0x80, CHR 0x8A], [CHR 0xE2, CHR 0x80, CHR 0xA8],
      [CHR 0xE2, CHR 0x80, CHR 0xA9], [CHR 0xE2, CHR 0x80, CHR 0xAF], [CHR 0xE2, CHR 0x81, CHR 0x9F],
      [CHR 0xE3, CHR 0x80, CHR 0x80]]"

definition is_digit :: "char \<Rightarrow> bool" where
  "is_digit c \<longleftrightarrow> c \<in> set ''0123456789''"

definition digit_val :: "char \<Rightarrow> nat" where
  "digit_val c = of_char c - 48"

definition lower_char :: "char \<Rightarrow> char" where
  "lower_char c =
     (case map_of (zip ''ABCDEFGHIJKLMNOPQRSTUVWXYZ'' ''abcdefghijklmnopqrstuvwxyz'') c of
        Some l \<Rightarrow> l
      | None \<Rightarrow> c)"

text \<open>
  \<^verbatim>\<open>str.strip()\<close> removes the whitespace characters at both ends.
\<close>

definition strip_chars :: "string list \<Rightarrow> string \<Rightarrow> string" where
  "strip_chars ws s =
     concat (rev (dropWhile (\<lambda>w. w \<in> set ws) (rev (dropWhile (\<lambda>w. w \<in> set ws) (chars s)))))"

definition strip :: "string \<Rightarrow> string" where
  "strip s = strip_chars (c_whitespace @ separators @ wide_whitespace) s"

text \<open>
  \<^verbatim>\<open>str.lower()\<close>. Beyond ASCII, two characters have a lower-case form with an ASCII
  letter: the Kelvin sign U+212A becomes \<open>k\<close>, and U+0130 becomes \<open>i\<close> followed by U+0307.
  The other letters beyond ASCII are left as they are here: their lower-case forms are
  again beyond ASCII, and the program only tests whether an ASCII word occurs in the
  result, which depends on its ASCII characters and on where the others stand.
\<close>

definition lower_seq :: "string \<Rightarrow> string" where
  "lower_seq w =
     (if w = [CHR 0xE2, CHR 0x84, CHR 0xAA] then ''k''
      else if w = [CHR 0xC4, CHR 0xB0] then [CHR ''i'', CHR 0xCC, CHR 0x87]
      else map lower_char w)"

definition lower :: "string \<Rightarrow> string" where
  "lower s = concat (map lower_seq (chars s))"

text \<open>\<^verbatim>\<open>sub in s\<close> on strings.\<close>

fun contains :: "string \<Rightarrow> string \<Rightarrow> bool" where
  "contains sub [] = (sub = [])"
| "contains sub (c # cs) = (prefix sub (c # cs) \<or> contains sub cs)"

text \<open>
  \<^verbatim>\<open>s.replace(old, new)\<close>: the occurrences of \<open>old\<close> are found from the left and do not
  overlap. An empty \<open>old\<close> matches before every character and at the end.
\<close>

function replace_from :: "string \<Rightarrow> string \<Rightarrow> string \<Rightarrow> string" where
  "replace_from old new [] = []"
| "replace_from old new (c # cs) =
     (if old \<noteq> [] \<and> prefix old (c # cs)
      then new @ replace_from old new (drop (length old) (c # cs))
      else c # replace_from old new cs)"
  by pat_completeness auto
termination
  by (relation "measure (\<lambda>(old, new, s). length s)") auto

definition str_replace :: "string \<Rightarrow> string \<Rightarrow> string \<Rightarrow> string" where
  "str_replace old new s =
     (if old = [] then new @ concat (map (\<lambda>c. c # new) s) else replace_from old new s)"

subsection \<open>\<^verbatim>\<open>float(text)\<close>\<close>

text \<open>
  A finite Python float is modelled by the exact value of the numeral it was read from;
  Python stores the double nearest to that value, which is a function of it, so two texts
  with the same value here give the same float there. A value of magnitude
  \<open>2^1024 - 2^970\<close> or more, half-way between the largest double and \<open>2^1024\<close>, has no
  nearest double and is read as an infinity.
  The grammar is the one of \<^verbatim>\<open>float()\<close>: whitespace at both ends is dropped (that of C
  and the whitespace characters beyond ASCII, not the four separators), underscores may
  stand between digits, then a sign, then \<^verbatim>\<open>inf\<close>, \<^verbatim>\<open>infinity\<close>, \<^verbatim>\<open>nan\<close> in any case, or
  digits with at most one point and an optional exponent. Anything else raises
  \<^verbatim>\<open>ValueError\<close>. The decimal digits beyond ASCII, which \<^verbatim>\<open>float()\<close> reads as well, are
  not modelled: a text with such a digit is rejected here.
\<close>

datatype pyfloat = Finite rat | Infinity bool | NaN

definition float_of :: "rat \<Rightarrow> pyfloat" where
  "float_of q = (if 2 ^ 1024 - 2 ^ 970 \<le> \<bar>q\<bar> then Infinity (q < 0) else Finite q)"

definition ascii_lower :: "string \<Rightarrow> string" where
  "ascii_lower s = map lower_char s"

fun drop_underscores :: "char \<Rightarrow> string \<Rightarrow> string option" where
  "drop_underscores prev [] = (if prev = CHR ''_'' then None else Some [])"
| "drop_underscores prev (c # cs) =
     (if c = CHR ''_''
      then (if is_digit prev then drop_underscores c cs else None)
      else if prev = CHR ''_'' \<and> \<not> is_digit c then None
      else map_option ((#) c) (drop_underscores c cs))"

definition digits_value :: "string \<Rightarrow> nat" where
  "digits_value ds = foldl (\<lambda>n c. 10 * n + digit_val c) 0 ds"

definition parse_exponent :: "string \<Rightarrow> int option" where
  "parse_exponent r =
     (case r of
        [] \<Rightarrow> Some 0
      | c # r' \<Rightarrow>
          if c = CHR ''e'' \<or> c = CHR ''E''
          then (let neg = (r' \<noteq> [] \<and> hd r' = CHR ''-'');
                    ds = (if r' \<noteq> [] \<and> (hd r' = CHR ''-'' \<or> hd r' = CHR ''+'') then tl r' else r')
                in if ds \<noteq> [] \<and> list_all is_digit ds
                   then Some (if neg then - int (digits_value ds) else int (digits_value ds))
                   else None)
          else None)"

definition scale10 :: "rat \<Rightarrow> int \<Rightarrow> rat" where
  "scale10 m e = (if 0 \<le> e then m * 10 ^ nat e else m / 10 ^ nat (- e))"

definition py_float :: "string \<Rightarrow> py_error + pyfloat" where
  "py_float s =
     (case drop_underscores (CHR 0x00) (strip_chars (c_whitespace @ wide_whitespace) s) of
        None \<Rightarrow> Inl ValueError
      | Some t \<Rightarrow>
          (let neg = (t \<noteq> [] \<and> hd t = CHR ''-'');
               u = (if t \<noteq> [] \<and> (hd t = CHR ''-'' \<or> hd t = CHR ''+'') then tl t else t);
               w = ascii_lower u
           in if w = ''inf'' \<or> w = ''infinity'' then Inr (Infinity neg)
              else if w = ''nan'' then Inr NaN
              else
                (let ip = takeWhile is_digit u;
                     r1 = dropWhile is_digit u;
                     pt = (r1 \<noteq> [] \<and> hd r1 = CHR ''.'');
                     fp = (if pt then takeWhile is_digit (tl r1) else []);
                     r2 = (if pt then dropWhile is_digit (tl r1) else r1)
                 in if ip = [] \<and> fp = [] then Inl ValueError
                    else (case parse_exponent r2 of
                            None \<Rightarrow> Inl ValueError
                          | Some e \<Rightarrow>
                              Inr (float_of (scale10 ((if neg then - 1 else 1) *
                                     of_nat (digits_value (ip @ fp))) (e - int (length fp))))))))"

section \<open>The numeric normalizer \<^verbatim>\<open>parse_kursziel\<close>\<close>

text \<open>
  A table cell is seen by the program only through \<^verbatim>\<open>pd.isna(value)\<close> and \<^verbatim>\<open>str(value)\<close>:
  \<open>None\<close> is a cell for which \<^verbatim>\<open>pd.isna\<close> holds, \<open>Some txt\<close> a cell whose \<^verbatim>\<open>str\<close> is \<open>txt\<close>.
  The result is \<open>Inr None\<close> for Python's \<^verbatim>\<open>None\<close>, \<open>Inr (Some x)\<close> for a float, and \<open>Inl e\<close>
  for an exception that leaves the function.
\<close>

type_synonym raw = "string option"

definition stripped :: "string \<Rightarrow> string" where
  "stripped txt =
     str_replace '' '' [] (str_replace ''USD'' [] (str_replace ''EUR'' [] (str_replace euro [] txt)))"

definition norm_txt :: "string \<Rightarrow> string" where
  "norm_txt txt = str_replace '','' ''.'' (str_replace ''.'' [] (stripped txt))"

definition parse_kursziel :: "raw \<Rightarrow> py_error + pyfloat option" where
  "parse_kursziel v =
     (case v of
        None \<Rightarrow> Inr None
      | Some txt \<Rightarrow>
          (case py_float (norm_txt txt) of
             Inr x \<Rightarrow> Inr (Some x)
           | Inl e \<Rightarrow> if e = ValueError \<or> e = TypeError then Inr None else Inl e))"

text \<open>
  The inputs the specification calls European decimal format: groups of digits separated by
  \<open>.\<close>, an optional \<open>,\<close> followed by the fraction digits (an empty \<open>f\<close> stands for no
  comma), and optionally a space, a currency marker, or a space and a currency marker.
\<close>

fun join_groups :: "string list \<Rightarrow> string" where
  "join_groups [] = []"
| "join_groups [g] = g"
| "join_groups (g # h # gs) = g @ CHR ''.'' # join_groups (h # gs)"

definition european_text :: "string list \<Rightarrow> string \<Rightarrow> string" where
  "european_text gs f = join_groups gs @ (if f = [] then [] else CHR '','' # f)"

definition currency_suffixes :: "string list" where
  "currency_suffixes = [[], '' '', euro, '' '' @ euro, ''EUR'', '' EUR'', ''USD'', '' USD'']"

section \<open>Data frames\<close>

text \<open>
  A column label is a string or, for a table that pandas read without a header row, a
  position. A cell of an extracted table is either a value as pandas read it or the result
  of \<^verbatim>\<open>parse_kursziel\<close>. The extracted table is kept column by column, as the program
  works on it (\<^verbatim>\<open>df[col] = ...\<close>), with the length of its index; the labels of a frame
  that pandas read are pairwise different, since its reader renames duplicates.
\<close>

datatype label = Name string | Index int

datatype cell = Raw raw | Parsed "pyfloat option"

record 'c frame =
  nrows :: nat
  cols :: "(label \<times> 'c list) list"

definition columns :: "'c frame \<Rightarrow> label list" where
  "columns df = map fst (cols df)"

text \<open>A list comprehension or \<^verbatim>\<open>apply\<close> whose body may raise stops at the first exception.\<close>

fun try_map :: "('a \<Rightarrow> py_error + 'b) \<Rightarrow> 'a list \<Rightarrow> py_error + 'b list" where
  "try_map g [] = Inr []"
| "try_map g (x # xs) =
     (case g x of
        Inl e \<Rightarrow> Inl e
      | Inr y \<Rightarrow> (case try_map g xs of Inl e \<Rightarrow> Inl e | Inr ys \<Rightarrow> Inr (y # ys)))"

text \<open>\<^verbatim>\<open>df.columns = [col.strip() for col in df.columns]\<close>; an integer has no \<^verbatim>\<open>strip\<close>.\<close>

fun strip_label :: "label \<Rightarrow> py_error + label" where
  "strip_label (Name s) = Inr (Name (strip s))"
| "strip_label (Index i) = Inl AttributeError"

definition strip_columns :: "(label \<times> 'c list) list \<Rightarrow> py_error + (label \<times> 'c list) list" where
  "strip_columns cs =
     (case try_map strip_label (map fst cs) of
        Inl e \<Rightarrow> Inl e
      | Inr ls \<Rightarrow> Inr (zip ls (map snd cs)))"

text \<open>
  \<^verbatim>\<open>'kursziel' in col.lower()\<close>; after \<open>strip_columns\<close> every label is a string, so the
  second equation is never used.
\<close>

fun has_kursziel :: "label \<Rightarrow> bool" where
  "has_kursziel (Name s) = contains ''kursziel'' (lower s)"
| "has_kursziel (Index i) = False"

fun truthy :: "label \<Rightarrow> bool" where
  "truthy (Name s) = (s \<noteq> [])"
| "truthy (Index i) = (i \<noteq> 0)"

text \<open>\<^verbatim>\<open>df[kursziel_col] = df[kursziel_col].apply(parse_kursziel)\<close>\<close>

definition apply_parse_kursziel ::
  "label \<Rightarrow> (label \<times> raw list) list \<Rightarrow> py_error + (label \<times> cell list) list" where
  "apply_parse_kursziel k cs =
     try_map (\<lambda>(l, vs).
        if l = k
        then (case try_map parse_kursziel vs of
                Inl e \<Rightarrow> Inl e
              | Inr xs \<Rightarrow> Inr (l, map Parsed xs))
        else Inr (l, map Raw vs)) cs"

section \<open>The table selector \<^verbatim>\<open>get_kursziele_table\<close>\<close>

text \<open>
  What the program reads from one \<^verbatim>\<open><table>\<close> element: the texts
  (\<^verbatim>\<open>get_text(strip=True)\<close>) of the cells under its \<^verbatim>\<open><thead>\<close> if it has one, those of the
  cells of its first \<^verbatim>\<open><tr>\<close> if it has one, and the outcome of
  \<^verbatim>\<open>pd.read_html(str(table), flavor='bs4')[0]\<close>. A page is the list \<^verbatim>\<open>soup.find_all('table')\<close>,
  and the web maps an address to its page or to the exception of the request.
\<close>

record html_table =
  thead :: "string list option"
  first_tr :: "string list option"
  read_html :: "py_error + raw frame"

type_synonym web = "string \<Rightarrow> py_error + html_table list"

definition headers_text :: "html_table \<Rightarrow> string list option" where
  "headers_text t =
     (case thead t of
        Some cells \<Rightarrow> Some (map lower cells)
      | None \<Rightarrow>
          (case first_tr t of
             Some cells \<Rightarrow> Some (map lower cells)
           | None \<Rightarrow> None))"

text \<open>
  Lines 58 to 88, for a table whose header matched: \<open>Inr None\<close> when no column of the frame
  carries the keyword and the loop goes on.
\<close>

definition extract_table :: "html_table \<Rightarrow> py_error + cell frame option" where
  "extract_table t =
     (case read_html t of
        Inl e \<Rightarrow> Inl e
      | Inr df \<Rightarrow>
          (case strip_columns (cols df) of
             Inl e \<Rightarrow> Inl e
           | Inr cs \<Rightarrow>
               (case find has_kursziel (map fst cs) of
                  None \<Rightarrow> Inr None
                | Some kursziel_col \<Rightarrow>
                    if truthy kursziel_col
                    then (case apply_parse_kursziel kursziel_col cs of
                            Inl e \<Rightarrow> Inl e
                          | Inr cs' \<Rightarrow> Inr (Some \<lparr>nrows = nrows df, cols = cs'\<rparr>))
                    else Inr None)))"

text \<open>The loop over the tables of the page (lines 42 to 88).\<close>

fun search_tables :: "html_table list \<Rightarrow> py_error + cell frame option" where
  "search_tables [] = Inr None"
| "search_tables (t # ts) =
     (case headers_text t of
        None \<Rightarrow> search_tables ts
      | Some hs \<Rightarrow>
          if list_ex (contains ''kursziel'') hs
          then (case extract_table t of
                  Inl e \<Rightarrow> Inl e
                | Inr (Some df) \<Rightarrow> Inr (Some df)
                | Inr None \<Rightarrow> search_tables ts)
          else search_tables ts)"

text \<open>The fallback to the first table (lines 91 to 100), with its own handler.\<close>

definition first_table :: "html_table list \<Rightarrow> cell frame option" where
  "first_table tables =
     (case tables of
        [] \<Rightarrow> None
      | t # _ \<Rightarrow>
          (case read_html t of
             Inl e \<Rightarrow> None
           | Inr df \<Rightarrow>
               (case strip_columns (cols df) of
                  Inl e \<Rightarrow> None
                | Inr cs \<Rightarrow> Some \<lparr>nrows = nrows df, cols = map (\<lambda>(l, vs). (l, map Raw vs)) cs\<rparr>)))"

text \<open>
  Both handlers of the function return \<^verbatim>\<open>None\<close>; \<open>Inl\<close> would be an exception that leaves
  the function.
\<close>

definition get_kursziele_table :: "web \<Rightarrow> string \<Rightarrow> py_error + cell frame option" where
  "get_kursziele_table web page_url =
     (case web page_url of
        Inl e \<Rightarrow> if e = RequestException then Inr None else Inr None
      | Inr tables \<Rightarrow>
          if tables = [] then Inr None
          else (case search_tables tables of
                  Inl e \<Rightarrow> Inr None
                | Inr (Some df) \<Rightarrow> Inr (Some df)
                | Inr None \<Rightarrow> Inr (first_table tables)))"

text \<open>The header test of the loop, as a predicate on a table.\<close>

definition header_match :: "html_table \<Rightarrow> bool" where
  "header_match t =
     (case headers_text t of None \<Rightarrow> False | Some hs \<Rightarrow> list_ex (contains ''kursziel'') hs)"

text \<open>The value \<^verbatim>\<open>parse_kursziel\<close> returns, \<^verbatim>\<open>None\<close> included.\<close>

definition normalized :: "raw \<Rightarrow> cell" where
  "normalized v = Parsed (case parse_kursziel v of Inr x \<Rightarrow> x | Inl e \<Rightarrow> None)"

section \<open>The batch runner \<^verbatim>\<open>process_kursziele_from_excel\<close>\<close>

text \<open>
  The sheet that \<^verbatim>\<open>pd.read_excel\<close> returns is read row by row (\<^verbatim>\<open>iterrows\<close>), so it is kept as
  its column labels and its rows; \<open>cell_at\<close> is \<^verbatim>\<open>row[col]\<close>.
\<close>

record sheet =
  header :: "label list"
  records :: "raw list list"

type_synonym excel = "string \<Rightarrow> string \<Rightarrow> py_error + sheet"

definition cell_at :: "label list \<Rightarrow> raw list \<Rightarrow> label \<Rightarrow> raw" where
  "cell_at hdr row col = (case map_of (zip hdr row) col of Some v \<Rightarrow> v | None \<Rightarrow> None)"

text \<open>Lines 130 to 132: rows without an address are dropped, the address is trimmed.\<close>

definition clean_rows :: "label list \<Rightarrow> label \<Rightarrow> raw list list \<Rightarrow> raw list list" where
  "clean_rows hdr u rs =
     filter (\<lambda>r. cell_at hdr r u \<noteq> Some [])
       (map (\<lambda>r. map (\<lambda>(c, v). if c = u then map_option strip v else v) (zip hdr r))
          (filter (\<lambda>r. cell_at hdr r u \<noteq> None) rs))"

text \<open>\<^verbatim>\<open>url = row[url_column]\<close>; after the cleaning the cell is a string.\<close>

definition url_of :: "label list \<Rightarrow> label \<Rightarrow> raw list \<Rightarrow> string" where
  "url_of hdr u row = (case cell_at hdr row u of Some s \<Rightarrow> s | None \<Rightarrow> [])"

text \<open>\<^verbatim>\<open>df[col] = value\<close> for a scalar: an existing column is overwritten, a new one is appended.\<close>

definition set_column :: "'c frame \<Rightarrow> label \<Rightarrow> 'c \<Rightarrow> 'c frame" where
  "set_column df c v =
     (if c \<in> set (columns df)
      then df\<lparr>cols := map (\<lambda>(l, vs). if l = c then (l, replicate (nrows df) v) else (l, vs)) (cols df)\<rparr>
      else df\<lparr>cols := cols df @ [(c, replicate (nrows df) v)]\<rparr>)"

text \<open>Lines 146 to 150.\<close>

definition source_url :: label where
  "source_url = Name ''Source_URL''"

definition tag_table :: "label list \<Rightarrow> label \<Rightarrow> raw list \<Rightarrow> string \<Rightarrow> cell frame \<Rightarrow> cell frame" where
  "tag_table hdr u row url kursziel_table =
     foldl (\<lambda>t col. if col \<noteq> u then set_column t col (Raw (cell_at hdr row col)) else t)
       (set_column kursziel_table source_url (Raw (Some url))) hdr"

text \<open>
  The loop over the rows (lines 138 to 155). Its state is the list \<^verbatim>\<open>results\<close> and the trace of
  what the program did to the outside: the requests and the pauses.
\<close>

datatype event = Request string | Sleep nat

fun extract_rows ::
  "web \<Rightarrow> label list \<Rightarrow> label \<Rightarrow> raw list list \<Rightarrow> cell frame list \<Rightarrow> event list
     \<Rightarrow> (py_error + cell frame list) \<times> event list" where
  "extract_rows web hdr u [] results trace = (Inr results, trace)"
| "extract_rows web hdr u (row # rows) results trace =
     (let url = url_of hdr u row
      in case get_kursziele_table web url of
           Inl e \<Rightarrow> (Inl e, trace @ [Request url])
         | Inr None \<Rightarrow> extract_rows web hdr u rows results (trace @ [Request url])
         | Inr (Some kursziel_table) \<Rightarrow>
             if nrows kursziel_table > 0
             then extract_rows web hdr u rows
                    (results @ [tag_table hdr u row url kursziel_table])
                    (trace @ [Request url, Sleep 1])
             else extract_rows web hdr u rows results (trace @ [Request url]))"

text \<open>
  \<^verbatim>\<open>pd.concat(results, ignore_index=True)\<close>: the columns are those of all frames in the order
  of their first appearance, and a frame without a column contributes missing values.
\<close>

definition union_columns :: "'c frame list \<Rightarrow> label list" where
  "union_columns fs = rev (remdups (rev (concat (map columns fs))))"

definition column_of :: "cell frame \<Rightarrow> label \<Rightarrow> cell list" where
  "column_of df c =
     (case map_of (cols df) c of Some vs \<Rightarrow> vs | None \<Rightarrow> replicate (nrows df) (Raw None))"

definition concat_frames :: "cell frame list \<Rightarrow> cell frame" where
  "concat_frames fs =
     \<lparr>nrows = sum_list (map nrows fs),
      cols = map (\<lambda>c. (c, concat (map (\<lambda>df. column_of df c) fs))) (union_columns fs)\<rparr>"

text \<open>\<^verbatim>\<open>pd.DataFrame()\<close>\<close>

definition empty_frame :: "cell frame" where
  "empty_frame = \<lparr>nrows = 0, cols = []\<rparr>"

text \<open>The body of the \<^verbatim>\<open>try\<close> (lines 126 to 164) and the function with its two handlers.\<close>

definition process_body ::
  "excel \<Rightarrow> web \<Rightarrow> string \<Rightarrow> string \<Rightarrow> string \<Rightarrow> (py_error + cell frame) \<times> event list" where
  "process_body excel web excel_path sheet_name url_column =
     (case excel excel_path sheet_name of
        Inl e \<Rightarrow> (Inl e, [])
      | Inr df \<Rightarrow>
          if Name url_column \<notin> set (header df) then (Inl KeyError, [])
          else
            (case extract_rows web (header df) (Name url_column)
                    (clean_rows (header df) (Name url_column) (records df)) [] [] of
               (Inl e, trace) \<Rightarrow> (Inl e, trace)
             | (Inr results, trace) \<Rightarrow>
                 if results \<noteq> [] then (Inr (concat_frames results), trace)
                 else (Inr empty_frame, trace)))"

definition process_kursziele_from_excel ::
  "excel \<Rightarrow> web \<Rightarrow> string \<Rightarrow> string \<Rightarrow> string \<Rightarrow> (py_error + cell frame) \<times> event list" where
  "process_kursziele_from_excel excel web excel_path sheet_name url_column =
     (case process_body excel web excel_path sheet_name url_column of
        (Inl e, trace) \<Rightarrow>
          if e = FileNotFoundError then (Inr empty_frame, trace) else (Inr empty_frame, trace)
      | (Inr final_df, trace) \<Rightarrow> (Inr final_df, trace))"

text \<open>The rows that contribute: those whose page gives a table with at least one row.\<close>

definition usable :: "web \<Rightarrow> string \<Rightarrow> cell frame option" where
  "usable web url =
     (case get_kursziele_table web url of
        Inr (Some df) \<Rightarrow> if nrows df > 0 then Some df else None
      | _ \<Rightarrow> None)"

definition output_of :: "web \<Rightarrow> label list \<Rightarrow> label \<Rightarrow> raw list \<Rightarrow> cell frame option" where
  "output_of web hdr u row =
     map_option (tag_table hdr u row (url_of hdr u row)) (usable web (url_of hdr u row))"

section \<open>The output path of \<^verbatim>\<open>main\<close>\<close>

definition output_path :: "string \<Rightarrow> string" where
  "output_path excel_path =
     str_replace ''.xls'' ''_kursziele.xlsx'' (str_replace ''.xlsx'' ''_kursziele.xlsx'' excel_path)"


section \<open>Notions used to state the claims\<close>

text \<open>
  A table is passed over by the loop when its header does not carry the keyword, or when
  it does but the frame pandas reads from it has string labels none of which carries it.
\<close>

definition passed_over :: "html_table \<Rightarrow> bool" where
  "passed_over p \<longleftrightarrow>
     (header_match p \<longrightarrow>
        (\<exists>df names. read_html p = Inr df \<and> try_map strip_label (columns df) = Inr names
           \<and> find has_kursziel names = None))"

text \<open>
  The output frames of the rows that contribute, in the order of the rows; what the program
  does to the outside for one row; and, for every row of the result, the input row it
  comes from.
\<close>

definition outputs :: "web \<Rightarrow> label list \<Rightarrow> label \<Rightarrow> raw list list \<Rightarrow> cell frame list" where
  "outputs web hdr u rows = List.map_filter (output_of web hdr u) rows"

definition events_of :: "web \<Rightarrow> label list \<Rightarrow> label \<Rightarrow> raw list \<Rightarrow> event list" where
  "events_of web hdr u row =
     Request (url_of hdr u row) #
       (if usable web (url_of hdr u row) = None then [] else [Sleep 1])"

definition origins :: "web \<Rightarrow> label list \<Rightarrow> label \<Rightarrow> raw list list \<Rightarrow> raw list list" where
  "origins web hdr u rows =
     concat (map (\<lambda>row. case usable web (url_of hdr u row) of
                            None \<Rightarrow> []
                          | Some t \<Rightarrow> replicate (nrows t) row) rows)"

text \<open>
  The same for a sheet as \<^verbatim>\<open>pd.read_excel\<close> returned it: its rows after the cleaning, the
  address of a row, whether a row contributes, the output frames and the origins.
\<close>

definition input_rows :: "sheet \<Rightarrow> string \<Rightarrow> raw list list" where
  "input_rows sh url_column = clean_rows (header sh) (Name url_column) (records sh)"

definition address :: "sheet \<Rightarrow> string \<Rightarrow> raw list \<Rightarrow> string" where
  "address sh url_column row = url_of (header sh) (Name url_column) row"

definition succeeds :: "web \<Rightarrow> sheet \<Rightarrow> string \<Rightarrow> raw list \<Rightarrow> bool" where
  "succeeds web sh url_column row \<longleftrightarrow> usable web (address sh url_column row) \<noteq> None"

definition row_outputs :: "web \<Rightarrow> sheet \<Rightarrow> string \<Rightarrow> cell frame list" where
  "row_outputs web sh url_column =
     outputs web (header sh) (Name url_column) (input_rows sh url_column)"

definition row_origins :: "web \<Rightarrow> sheet \<Rightarrow> string \<Rightarrow> raw list list" where
  "row_origins web sh url_column =
     origins web (header sh) (Name url_column) (input_rows sh url_column)"

section \<open>Example pages and sheets\<close>

text \<open>
  A table with a header section and one data row; a table without header cells, for which
  pandas numbers the columns and keeps the first row as data; the same with the keyword in
  its first row; a table with string labels and no keyword; a table with a header and no
  data row; and a table that holds an image and no text, which \<^verbatim>\<open>pd.read_html\<close> refuses
  with a \<^verbatim>\<open>ValueError\<close>.
\<close>

definition kursziel_frame :: "raw frame" where
  "kursziel_frame =
     \<lparr>nrows = 1,
      cols = [(Name ''Institut'', [Some ''Bank A'']),
              (Name ''Kursziel'', [Some ''123,50'']),
              (Name ''Datum'', [Some ''2024-01-01''])]\<rparr>"

definition kursziel_page_table :: html_table where
  "kursziel_page_table =
     \<lparr>thead = Some [''Institut'', ''Kursziel'', ''Datum''],
      first_tr = Some [''Institut'', ''Kursziel'', ''Datum''],
      read_html = Inr kursziel_frame\<rparr>"

definition menu_table :: html_table where
  "menu_table =
     \<lparr>thead = None,
      first_tr = Some [''Start'', ''Kurse''],
      read_html = Inr \<lparr>nrows = 1, cols = [(Index 0, [Some ''Start'']), (Index 1, [Some ''Kurse''])]\<rparr>\<rparr>"

definition headerless_table :: html_table where
  "headerless_table =
     \<lparr>thead = None,
      first_tr = Some [''Institut'', ''Kursziel''],
      read_html = Inr \<lparr>nrows = 2,
                        cols = [(Index 0, [Some ''Institut'', Some ''Bank A'']),
                                (Index 1, [Some ''Kursziel'', Some ''123,50''])]\<rparr>\<rparr>"

definition plain_frame :: "raw frame" where
  "plain_frame = \<lparr>nrows = 1, cols = [(Name ''Name'', [Some ''DAX'']), (Name ''Stand'', [None])]\<rparr>"

definition plain_table :: html_table where
  "plain_table =
     \<lparr>thead = Some [''Name'', ''Stand''],
      first_tr = Some [''Name'', ''Stand''],
      read_html = Inr plain_frame\<rparr>"

definition no_rows_table :: html_table where
  "no_rows_table =
     \<lparr>thead = Some [''Institut'', ''Kursziel''],
      first_tr = Some [''Institut'', ''Kursziel''],
      read_html = Inr \<lparr>nrows = 0, cols = [(Name ''Institut'', []), (Name ''Kursziel'', [])]\<rparr>\<rparr>"

definition image_table :: html_table where
  "image_table = \<lparr>thead = None, first_tr = Some [[]], read_html = Inl ValueError\<rparr>"

definition example_web :: web where
  "example_web url =
     (if url = ''https://a.example/kursziele'' then Inr [menu_table, kursziel_page_table]
      else if url = ''https://b.example/kursziele'' then Inr [headerless_table]
      else if url = ''https://d.example/kursziele'' then Inr [plain_table, menu_table]
      else if url = ''https://e.example/kursziele'' then Inr [no_rows_table]
      else if url = ''https://f.example/kursziele'' then Inr []
      else if url = ''https://g.example/kursziele'' then Inr [image_table, plain_table]
      else Inl RequestException)"

definition example_sheet :: sheet where
  "example_sheet =
     \<lparr>header = [Name ''Url'', Name ''WKN''],
      records = [[Some ''https://x.example/kursziele'', Some ''514000''],
                 [Some '' https://a.example/kursziele '', Some ''703000''],
                 [None, Some ''716460''],
                 [Some ''https://e.example/kursziele'', Some ''840400'']]\<rparr>"

definition offline_sheet :: sheet where
  "offline_sheet =
     \<lparr>header = [Name ''Url''],
      records = [[Some ''https://x.example/kursziele''], [Some ''https://e.example/kursziele'']]\<rparr>"

definition tagged_sheet :: sheet where
  "tagged_sheet =
     \<lparr>header = [Name ''Url'', Name ''Source_URL''],
      records = [[Some ''https://a.example/kursziele'', Some ''intern'']]\<rparr>"

definition example_excel :: excel where
  "example_excel path sheet_name =
     (if path = ''input.xlsx'' \<and> sheet_name = ''Kursziele_Input'' then Inr example_sheet
      else if path = ''tagged.xlsx'' \<and> sheet_name = ''Kursziele_Input'' then Inr tagged_sheet
      else if path = ''offline.xlsx'' \<and> sheet_name = ''Kursziele_Input'' then Inr offline_sheet
      else Inl FileNotFoundError)"

text \<open>
  The frame extracted from the first example page, a row with colliding columns, and an
  extracted frame that has a column \<open>Source_URL\<close> of its own.
\<close>

definition kursziel_extract :: "cell frame" where
  "kursziel_extract =
     \<lparr>nrows = 1,
      cols = [(Name ''Institut'', [Raw (Some ''Bank A'')]),
              (Name ''Kursziel'', [Parsed (Some (Finite (12350 / 100)))]),
              (Name ''Datum'', [Raw (Some ''2024-01-01'')])]\<rparr>"

definition depot_header :: "label list" where
  "depot_header = [Name ''Url'', Name ''Institut'', Name ''Source_URL'', Name ''WKN'']"

definition depot_row :: "raw list" where
  "depot_row = [Some ''https://a.example/kursziele'', Some ''Depot'', Some ''intern'', Some ''703000'']"

definition linked_extract :: "cell frame" where
  "linked_extract =
     \<lparr>nrows = 1,
      cols = [(Name ''Institut'', [Raw (Some ''Bank A'')]),
              (Name ''Source_URL'', [Raw (Some ''orig'')])]\<rparr>"

section \<open>Properties of the text functions\<close>

lemma replace_from_skip:
  "old \<noteq> [] \<Longrightarrow> hd old \<notin> set a \<Longrightarrow> replace_from old new (a @ b) = a @ replace_from old new b"
proof (induction a)
  case Nil
  then show ?case by simp
next
  case (Cons c a)
  from Cons.prems have "\<not> prefix old (c # a @ b)"
    by (cases old) auto
  with Cons show ?case by simp
qed

lemma replace_from_char_del: "replace_from [c] [] s = filter (\<lambda>x. x \<noteq> c) s"
  by (induction s) auto

lemma replace_from_char_map: "replace_from [c] [d] s = map (\<lambda>x. if x = c then d else x) s"
  by (induction s) auto

lemma py_float_error: "py_float s = Inl e \<Longrightarrow> e = ValueError"
  by (auto simp: py_float_def Let_def split: option.splits if_splits)

lemma parse_kursziel_Inr: "\<exists>r. parse_kursziel v = Inr r"
  by (cases v) (auto simp: parse_kursziel_def split: sum.splits dest: py_float_error)

lemma is_digit_simps:
  "is_digit c \<Longrightarrow> [c] \<notin> set (c_whitespace @ wide_whitespace)" "is_digit c \<Longrightarrow> c \<noteq> CHR ''_''"
  "is_digit c \<Longrightarrow> c \<noteq> CHR ''.''" "is_digit c \<Longrightarrow> c \<noteq> CHR '',''"
  "is_digit c \<Longrightarrow> c \<noteq> CHR ''-''" "is_digit c \<Longrightarrow> c \<noteq> CHR ''+''"
  "is_digit c \<Longrightarrow> c \<noteq> CHR '' ''" "is_digit c \<Longrightarrow> c \<noteq> CHR ''E''"
  "is_digit c \<Longrightarrow> c \<noteq> CHR ''U''" "is_digit c \<Longrightarrow> c \<noteq> CHR 0xE2"
  by (auto simp: is_digit_def c_whitespace_def wide_whitespace_def)

lemma is_digit_not_cont: "is_digit c \<Longrightarrow> \<not> is_cont c"
  by (auto simp: is_digit_def is_cont_def)

lemma lower_char_digits: "\<forall>c\<in>set ''0123456789''. lower_char c = c"
  by (simp add: lower_char_def)

lemma lower_char_digit: "is_digit c \<Longrightarrow> lower_char c = c"
  using lower_char_digits by (simp only: is_digit_def)


lemma chars_plain: "\<forall>c\<in>set s. \<not> is_cont c \<Longrightarrow> chars s = map (\<lambda>c. [c]) s"
proof (induction s)
  case Nil
  then show ?case by simp
next
  case (Cons c cs)
  then have "takeWhile is_cont cs = []" and "dropWhile is_cont cs = cs"
    by (cases cs; simp)+
  with Cons show ?case by simp
qed

lemma strip_chars_id:
  assumes "s \<noteq> []" and "\<forall>c\<in>set s. \<not> is_cont c"
    and "[hd s] \<notin> set ws" and "[last s] \<notin> set ws"
  shows "strip_chars ws s = s"
proof -
  let ?P = "\<lambda>w. w \<in> set ws"
  have c: "chars s = map (\<lambda>c. [c]) s"
    using assms(2) by (rule chars_plain)
  have 1: "dropWhile ?P (map (\<lambda>c. [c]) s) = map (\<lambda>c. [c]) s"
    using assms(1,3) by (cases s) auto
  have 2: "dropWhile ?P (map (\<lambda>c. [c]) (rev s)) = map (\<lambda>c. [c]) (rev s)"
    using assms(1,4) by (cases "rev s") (auto simp: last_rev [symmetric] hd_rev)
  have 3: "rev (map (\<lambda>c. [c]) s) = map (\<lambda>c. [c]) (rev s)"
    by (simp add: rev_map)
  show ?thesis
    unfolding strip_chars_def c 1 3 2 by (simp add: rev_map)
qed

lemma drop_underscores_none:
  "CHR ''_'' \<notin> set s \<Longrightarrow> prev \<noteq> CHR ''_'' \<Longrightarrow> drop_underscores prev s = Some s"
  by (induction s arbitrary: prev) auto

lemma digits_no_underscore: "list_all is_digit s \<Longrightarrow> CHR ''_'' \<notin> set s"
  by (auto simp: list_all_iff dest: is_digit_simps(2))

lemma py_float_digit_start:
  assumes "strip_chars (c_whitespace @ wide_whitespace) s = s"
    and "drop_underscores (CHR 0x00) s = Some s" "s \<noteq> []" "is_digit (hd s)"
  shows "py_float s =
     (let ip = takeWhile is_digit s;
          r1 = dropWhile is_digit s;
          pt = (r1 \<noteq> [] \<and> hd r1 = CHR ''.'');
          fp = (if pt then takeWhile is_digit (tl r1) else []);
          r2 = (if pt then dropWhile is_digit (tl r1) else r1)
      in if ip = [] \<and> fp = [] then Inl ValueError
         else (case parse_exponent r2 of
                 None \<Rightarrow> Inl ValueError
               | Some e \<Rightarrow> Inr (float_of (scale10 (of_nat (digits_value (ip @ fp))) (e - int (length fp))))))"
proof -
  obtain d r where s: "s = d # r" using assms(3) by (cases s) auto
  have dd: "is_digit d" using assms(4) s by simp
  have sg: "d \<noteq> CHR ''-''" "d \<noteq> CHR ''+''"
    using dd by (auto dest: is_digit_simps)
  have lw: "ascii_lower s \<noteq> ''inf''" "ascii_lower s \<noteq> ''infinity''" "ascii_lower s \<noteq> ''nan''"
    using dd by (auto simp: ascii_lower_def s lower_char_digit is_digit_def)
  have u: "(if s \<noteq> [] \<and> (hd s = CHR ''-'' \<or> hd s = CHR ''+'') then tl s else s) = s"
    using sg by (simp add: s)
  have n: "(s \<noteq> [] \<and> hd s = CHR ''-'') = False"
    using sg by (simp add: s)
  show ?thesis
    unfolding py_float_def assms(1) assms(2) option.case Let_def u n
    using lw by (simp cong: option.case_cong)
qed

lemma py_float_decimal:
  assumes ds: "ds \<noteq> []" "list_all is_digit ds" and f: "list_all is_digit f"
  shows "py_float (ds @ (if f = [] then [] else CHR ''.'' # f)) =
           Inr (float_of (of_nat (digits_value (ds @ f)) / 10 ^ length f))"
proof -
  let ?t = "if f = [] then [] else CHR ''.'' # f"
  let ?s = "ds @ ?t"
  have hd_s: "is_digit (hd ?s)"
    using ds by (cases ds) auto
  have last_s: "is_digit (last ?s)"
    using ds f by (auto simp: list_all_iff)
  have ne: "?s \<noteq> []" using ds(1) by simp
  have "\<not> is_cont (CHR ''.'')"
    by (simp add: is_cont_def)
  then have nc: "\<forall>c\<in>set ?s. \<not> is_cont c"
    using ds(2) f by (auto simp: list_all_iff dest: is_digit_not_cont)
  have s1: "strip_chars (c_whitespace @ wide_whitespace) ?s = ?s"
    using ne nc is_digit_simps(1) [OF hd_s] is_digit_simps(1) [OF last_s]
    by (rule strip_chars_id)
  have "CHR ''_'' \<notin> set ?s"
    using digits_no_underscore [OF ds(2)] digits_no_underscore [OF f] by auto
  then have s2: "drop_underscores (CHR 0x00) ?s = Some ?s"
    by (rule drop_underscores_none) simp
  have tw: "takeWhile is_digit ?s = ds"
    using ds(2) by (auto simp: list_all_iff is_digit_def)
  have dw: "dropWhile is_digit ?s = ?t"
    using ds(2) by (auto simp: list_all_iff is_digit_def)
  have twf: "takeWhile is_digit f = f" and dwf: "dropWhile is_digit f = []"
    using f by (auto simp: list_all_iff)
  show ?thesis
    unfolding py_float_digit_start [OF s1 s2 ne hd_s] tw dw
    using ds(1) by (simp add: twf dwf Let_def parse_exponent_def scale10_def)
qed


lemma stripped_skip:
  assumes "\<forall>c\<in>set a. c \<noteq> CHR 0xE2 \<and> c \<noteq> CHR ''E'' \<and> c \<noteq> CHR ''U'' \<and> c \<noteq> CHR '' ''"
  shows "stripped (a @ b) = a @ stripped b"
proof -
  have 1: "replace_from euro [] (a @ x) = a @ replace_from euro [] x" for x
    by (rule replace_from_skip) (use assms in \<open>auto simp: euro_def\<close>)
  have 2: "replace_from ''EUR'' [] (a @ x) = a @ replace_from ''EUR'' [] x" for x
    by (rule replace_from_skip) (use assms in auto)
  have 3: "replace_from ''USD'' [] (a @ x) = a @ replace_from ''USD'' [] x" for x
    by (rule replace_from_skip) (use assms in auto)
  have 4: "replace_from '' '' [] (a @ x) = a @ replace_from '' '' [] x" for x
    by (rule replace_from_skip) (use assms in auto)
  have e: "euro \<noteq> []" by (simp add: euro_def)
  show ?thesis
    by (simp add: stripped_def str_replace_def e 1 2 3 4)
qed

lemma stripped_suffix: "cur \<in> set currency_suffixes \<Longrightarrow> stripped cur = []"
  by (auto simp: currency_suffixes_def stripped_def str_replace_def euro_def)

lemma filter_join_groups:
  "\<forall>g\<in>set gs. list_all is_digit g \<Longrightarrow> filter (\<lambda>x. x \<noteq> CHR ''.'') (join_groups gs) = concat gs"
proof (induction gs rule: join_groups.induct)
  case (3 g h gs)
  then show ?case
    by (auto simp: list_all_iff filter_id_conv dest: is_digit_simps(3))
qed (auto simp: list_all_iff filter_id_conv dest: is_digit_simps(3))

lemma join_groups_chars:
  "\<forall>g\<in>set gs. list_all is_digit g \<Longrightarrow> c \<in> set (join_groups gs) \<Longrightarrow> is_digit c \<or> c = CHR ''.''"
  by (induction gs rule: join_groups.induct) (auto simp: list_all_iff)

lemma norm_txt_european:
  assumes gs: "\<forall>g\<in>set gs. list_all is_digit g" and f: "list_all is_digit f"
    and cur: "cur \<in> set currency_suffixes"
  shows "norm_txt (european_text gs f @ cur) = concat gs @ (if f = [] then [] else CHR ''.'' # f)"
proof -
  have ch: "\<forall>c\<in>set (european_text gs f). is_digit c \<or> c = CHR ''.'' \<or> c = CHR '',''"
    using join_groups_chars [OF gs] f by (auto simp: european_text_def list_all_iff)
  have "\<forall>c\<in>set (european_text gs f). c \<noteq> CHR 0xE2 \<and> c \<noteq> CHR ''E'' \<and> c \<noteq> CHR ''U'' \<and> c \<noteq> CHR '' ''"
    using ch by (auto dest: is_digit_simps)
  then have st: "stripped (european_text gs f @ cur) = european_text gs f"
    by (simp add: stripped_skip stripped_suffix [OF cur])
  have dg: "\<forall>c\<in>set (concat gs @ f). c \<noteq> CHR ''.'' \<and> c \<noteq> CHR '',''"
    using gs f by (auto simp: list_all_iff dest: is_digit_simps)
  have fl: "filter (\<lambda>x. x \<noteq> CHR ''.'') (european_text gs f) = concat gs @ (if f = [] then [] else CHR '','' # f)"
    using dg by (auto simp: european_text_def filter_join_groups [OF gs] filter_id_conv)
  have mp: "map (\<lambda>x. if x = CHR '','' then CHR ''.'' else x) (concat gs @ f) = concat gs @ f"
    using dg by (intro map_idI) auto
  show ?thesis
    unfolding norm_txt_def st str_replace_def
    using mp by (simp add: replace_from_char_del replace_from_char_map fl)
qed

lemma parse_kursziel_numeral:
  assumes "gs \<noteq> []" "\<forall>g\<in>set gs. g \<noteq> [] \<and> list_all is_digit g" "list_all is_digit f"
    and "cur \<in> set currency_suffixes"
  shows "parse_kursziel (Some (european_text gs f @ cur)) =
           Inr (Some (float_of (of_nat (digits_value (concat gs @ f)) / 10 ^ length f)))"
proof -
  have ne: "concat gs \<noteq> []" using assms(1,2) by (cases gs) auto
  have dg: "list_all is_digit (concat gs)" using assms(2) by (auto simp: list_all_iff)
  have gs: "\<forall>g\<in>set gs. list_all is_digit g" using assms(2) by simp
  show ?thesis
    by (simp add: parse_kursziel_def norm_txt_european [OF gs assms(3,4)]
        py_float_decimal [OF ne dg assms(3)] del: append_assoc)
qed


lemmas text_eval =
  str_replace_def euro_def strip_def strip_chars_def c_whitespace_def separators_def
  wide_whitespace_def is_cont_def is_digit_def lower_def lower_seq_def ascii_lower_def
  lower_char_def parse_exponent_def digits_value_def digit_val_def scale10_def float_of_def
  stripped_def norm_txt_def

section \<open>Claims about the numeric normalizer\<close>

text \<open>
  C1, as amended. For every text that is a numeral in European format (groups of digits
  separated by \<open>.\<close>, optionally \<open>,\<close> and fraction digits) optionally followed by a space,
  a currency marker or both, \<^verbatim>\<open>parse_kursziel\<close> returns the float of the number whose
  integer digits are those of the groups and whose fraction digits are those after the
  comma: the value read after the markers and every \<open>.\<close> are deleted and \<open>,\<close> is replaced
  by \<open>.\<close>. In particular \<open>1.234,56\<close>,
  \<open>1234,56\<close> and \<open>1.234,56\<close> with the euro sign give 1234.56, \<open>1,234\<close> gives 1.234, and
  \<open>1234.56 USD\<close> gives 123456, its point being deleted as a thousands separator. The
  float of a number is the number itself, standing for the nearest double, as long as it
  is below the range where doubles end.
\<close>

theorem parse_kursziel_european:
  assumes "gs \<noteq> []" and "\<forall>g\<in>set gs. g \<noteq> [] \<and> list_all is_digit g"
    and "list_all is_digit f" and "cur \<in> set currency_suffixes"
  shows "parse_kursziel (Some (european_text gs f @ cur)) =
           Inr (Some (float_of (of_nat (digits_value (concat gs @ f)) / 10 ^ length f)))
         \<and> (of_nat (digits_value (concat gs @ f)) / 10 ^ length f < (2 ^ 1024 - 2 ^ 970 :: rat) \<longrightarrow>
              parse_kursziel (Some (european_text gs f @ cur)) =
                Inr (Some (Finite (of_nat (digits_value (concat gs @ f)) / 10 ^ length f))))
         \<and> parse_kursziel (Some ''1.234,56'') = Inr (Some (Finite (123456 / 100)))
         \<and> parse_kursziel (Some ''1234,56'') = Inr (Some (Finite (123456 / 100)))
         \<and> parse_kursziel (Some (''1.234,56 '' @ euro)) = Inr (Some (Finite (123456 / 100)))
         \<and> parse_kursziel (Some ''1234.56 USD'') = Inr (Some (Finite 123456))
         \<and> parse_kursziel (Some ''1,234'') = Inr (Some (Finite (1234 / 1000)))"
proof -
  have 1: "parse_kursziel (Some ''1.234,56'') = Inr (Some (Finite (123456 / 100)))"
    using parse_kursziel_numeral [of "[''1'', ''234'']" "''56''" "[]"]
    by (simp add: european_text_def currency_suffixes_def text_eval)
  have 2: "parse_kursziel (Some ''1234,56'') = Inr (Some (Finite (123456 / 100)))"
    using parse_kursziel_numeral [of "[''1234'']" "''56''" "[]"]
    by (simp add: european_text_def currency_suffixes_def text_eval)
  have 3: "parse_kursziel (Some (''1.234,56 '' @ euro)) = Inr (Some (Finite (123456 / 100)))"
    using parse_kursziel_numeral [of "[''1'', ''234'']" "''56''" "'' '' @ euro"]
    by (simp add: european_text_def currency_suffixes_def text_eval)
  have 4: "parse_kursziel (Some ''1234.56 USD'') = Inr (Some (Finite 123456))"
    using parse_kursziel_numeral [of "[''1234'', ''56'']" "[]" "'' USD''"]
    by (simp add: european_text_def currency_suffixes_def text_eval)
  have 5: "parse_kursziel (Some ''1,234'') = Inr (Some (Finite (1234 / 1000)))"
    using parse_kursziel_numeral [of "[''1'']" "''234''" "[]"]
    by (simp add: european_text_def currency_suffixes_def text_eval)
  have 6: "parse_kursziel (Some (european_text gs f @ cur)) =
           Inr (Some (float_of (of_nat (digits_value (concat gs @ f)) / 10 ^ length f)))"
    using assms by (rule parse_kursziel_numeral)
  have "(0::rat) \<le> of_nat (digits_value (concat gs @ f)) / 10 ^ length f"
    by simp
  then have 7: "of_nat (digits_value (concat gs @ f)) / 10 ^ length f < (2 ^ 1024 - 2 ^ 970 :: rat) \<longrightarrow>
              parse_kursziel (Some (european_text gs f @ cur)) =
                Inr (Some (Finite (of_nat (digits_value (concat gs @ f)) / 10 ^ length f)))"
    unfolding 6 float_of_def by (simp only: abs_of_nonneg) simp
  show ?thesis
    using 1 2 3 4 5 6 7 by blast
qed

theorem parse_kursziel_european_witness:
  "[''12'', ''345''] \<noteq> [] \<and> list_all (\<lambda>g. g \<noteq> [] \<and> list_all is_digit g) [''12'', ''345'']
   \<and> list_all is_digit ''60'' \<and> '' EUR'' \<in> set currency_suffixes
   \<and> parse_kursziel (Some ''12.345,60 EUR'') = Inr (Some (Finite (1234560 / 100)))"
  using parse_kursziel_european [of "[''12'', ''345'']" "''60''" "'' EUR''"]
  by (simp add: european_text_def currency_suffixes_def text_eval)

theorem parse_kursziel_usd_counterexample:
  "parse_kursziel (Some ''1234.56 USD'') \<noteq> Inr (Some (Finite (123456 / 100)))"
  using parse_kursziel_numeral [of "[''1234'', ''56'']" "[]" "'' USD''"]
  by (simp add: european_text_def currency_suffixes_def text_eval)

text \<open>
  C2. \<^verbatim>\<open>parse_kursziel\<close> returns for every cell and never raises: a missing cell gives
  \<^verbatim>\<open>None\<close>, and so does every text whose normalized form \<^verbatim>\<open>float\<close> rejects, such as the empty
  text and a text without a number.
\<close>

theorem parse_kursziel_never_raises:
  "(\<exists>r. parse_kursziel v = Inr r)
   \<and> parse_kursziel None = Inr None
   \<and> (py_float (norm_txt txt) = Inl e \<longrightarrow> parse_kursziel (Some txt) = Inr None)
   \<and> parse_kursziel (Some []) = Inr None
   \<and> parse_kursziel (Some ''n/a'') = Inr None"
proof -
  have a: "py_float (norm_txt t) = Inl x \<longrightarrow> parse_kursziel (Some t) = Inr None" for t x
    by (auto simp: parse_kursziel_def dest: py_float_error)
  have b: "py_float (norm_txt []) = Inl ValueError"
    by (simp add: py_float_def text_eval)
  have c: "py_float (norm_txt ''n/a'') = Inl ValueError"
    by (simp add: py_float_def text_eval)
  show ?thesis
    using parse_kursziel_Inr [of v] a [of "txt" e] a [of "[]" ValueError] a [of "''n/a''" ValueError] b c
    by (simp add: parse_kursziel_def)
qed

theorem parse_kursziel_never_raises_witness:
  "py_float (norm_txt ''1.2.3,4,5'') = Inl ValueError
   \<and> parse_kursziel (Some ''1.2.3,4,5'') = Inr None"
proof -
  have h: "py_float (norm_txt ''1.2.3,4,5'') = Inl ValueError"
    by (simp add: py_float_def text_eval)
  show ?thesis
    using h parse_kursziel_never_raises [of None "''1.2.3,4,5''" ValueError] by simp
qed

section \<open>Properties of the table selector\<close>

lemma try_map_total:
  "(\<And>x. x \<in> set xs \<Longrightarrow> g x = Inr (h x)) \<Longrightarrow> try_map g xs = Inr (map h xs)"
  by (induction xs) auto

lemma try_map_length: "try_map g xs = Inr ys \<Longrightarrow> length ys = length xs"
  by (induction xs arbitrary: ys) (auto split: sum.splits)

lemma parse_kursziel_normalized:
  "parse_kursziel v = Inr (case parse_kursziel v of Inr x \<Rightarrow> x | Inl e \<Rightarrow> None)"
  using parse_kursziel_Inr [of v] by auto

lemma apply_parse_kursziel_eq:
  "apply_parse_kursziel k cs =
     Inr (map (\<lambda>(l, vs). (l, if l = k then map normalized vs else map Raw vs)) cs)"
proof -
  have 1: "try_map parse_kursziel vs =
             Inr (map (\<lambda>v. case parse_kursziel v of Inr x \<Rightarrow> x | Inl e \<Rightarrow> None) vs)" for vs
    by (rule try_map_total) (rule parse_kursziel_normalized)
  show ?thesis
    unfolding apply_parse_kursziel_def
    by (rule try_map_total) (auto simp: 1 normalized_def)
qed

lemma contains_nonempty: "contains sub s \<Longrightarrow> sub \<noteq> [] \<Longrightarrow> s \<noteq> []"
  by (cases s) auto

lemma has_kursziel_truthy: "has_kursziel k \<Longrightarrow> truthy k"
  by (cases k) (auto simp: lower_def dest: contains_nonempty)

lemma extract_table_found:
  assumes "read_html t = Inr df" "try_map strip_label (columns df) = Inr names"
    and "find has_kursziel names = Some k"
  shows "extract_table t =
           Inr (Some \<lparr>nrows = nrows df,
                      cols = map (\<lambda>(l, vs). (l, if l = k then map normalized vs else map Raw vs))
                               (zip names (map snd (cols df)))\<rparr>)"
proof -
  have len: "length names = length (cols df)"
    using try_map_length [OF assms(2)] by (simp add: columns_def)
  have k: "has_kursziel k" using assms(3) by (auto simp: find_Some_iff)
  show ?thesis
    using assms has_kursziel_truthy [OF k] len
    by (simp add: extract_table_def strip_columns_def columns_def apply_parse_kursziel_eq)
qed

lemma extract_table_not_found:
  assumes "read_html t = Inr df" "try_map strip_label (columns df) = Inr names"
    and "find has_kursziel names = None"
  shows "extract_table t = Inr None"
proof -
  have len: "length names = length (cols df)"
    using try_map_length [OF assms(2)] by (simp add: columns_def)
  show ?thesis
    using assms len
    by (simp add: extract_table_def strip_columns_def columns_def)
qed

lemma search_tables_skip:
  "\<forall>p\<in>set pre. passed_over p \<Longrightarrow> search_tables (pre @ ts) = search_tables ts"
proof (induction pre)
  case Nil
  then show ?case by simp
next
  case (Cons p pre)
  then have p: "passed_over p" and ih: "search_tables (pre @ ts) = search_tables ts"
    by auto
  show ?case
  proof (cases "header_match p")
    case True
    with p obtain df names where "read_html p = Inr df"
      "try_map strip_label (columns df) = Inr names" "find has_kursziel names = None"
      by (auto simp: passed_over_def)
    then have "extract_table p = Inr None" by (rule extract_table_not_found)
    then show ?thesis
      using ih by (auto split: option.splits)
  next
    case False
    then show ?thesis
      using ih by (auto simp: header_match_def split: option.splits)
  qed
qed

lemma search_tables_no_match:
  "\<forall>x\<in>set ts. \<not> header_match x \<Longrightarrow> search_tables ts = Inr None"
  by (induction ts) (auto simp: header_match_def split: option.splits)

lemma search_tables_hit:
  "header_match t \<Longrightarrow> extract_table t = Inr (Some df) \<Longrightarrow> search_tables (t # ts) = Inr (Some df)"
  by (auto simp: header_match_def split: option.splits)

lemma get_kursziele_table_Inr: "\<exists>r. get_kursziele_table web url = Inr r"
  by (auto simp: get_kursziele_table_def split: sum.splits option.splits)

text \<open>
  When the first table that is not passed over has a matching header, is read by pandas
  and has a label with the keyword, the selector returns its frame with the first such
  column normalized.
\<close>

lemma first_parsed_match_is_returned:
  assumes "web url = Inr (pre @ t # post)"
    and "\<forall>p\<in>set pre. passed_over p"
    and "header_match t" and "read_html t = Inr df"
    and "try_map strip_label (columns df) = Inr names"
    and "find has_kursziel names = Some k"
  shows "get_kursziele_table web url =
           Inr (Some \<lparr>nrows = nrows df,
                      cols = map (\<lambda>(l, vs). (l, if l = k then map normalized vs else map Raw vs))
                               (zip names (map snd (cols df)))\<rparr>)"
proof -
  have "search_tables (pre @ t # post) = search_tables (t # post)"
    using assms(2) by (rule search_tables_skip)
  also have "\<dots> = Inr (Some \<lparr>nrows = nrows df,
                      cols = map (\<lambda>(l, vs). (l, if l = k then map normalized vs else map Raw vs))
                               (zip names (map snd (cols df)))\<rparr>)"
    using assms(3) extract_table_found [OF assms(4,5,6)] by (rule search_tables_hit)
  finally show ?thesis
    using assms(1) by (simp add: get_kursziele_table_def)
qed

lemmas selector_eval =
  get_kursziele_table_def first_table_def extract_table_def strip_columns_def columns_def
  apply_parse_kursziel_def headers_text_def header_match_def passed_over_def normalized_def
  parse_kursziel_def py_float_def text_eval

lemmas example_defs =
  example_web_def kursziel_page_table_def kursziel_frame_def menu_table_def
  headerless_table_def plain_table_def plain_frame_def no_rows_table_def image_table_def

section \<open>Claims about the table selector\<close>

text \<open>
  C3. The selector is to return the first table whose header list contains the keyword,
  with the matched column normalized. For a table without header section the program
  takes the first row as the header list, whatever cells it has (lines 48 to 51). When
  these are data cells, pandas numbers the columns of the frame and keeps the row as data,
  and \<^verbatim>\<open>col.strip()\<close> (line 61) raises on a number. So on the page whose only table has the
  first row \<open>Institut\<close>, \<open>Kursziel\<close> in data cells, the header list contains the keyword
  and the selector returns nothing instead of the table.
\<close>

theorem get_kursziele_table_headerless:
  "example_web ''https://b.example/kursziele'' = Inr [headerless_table]
   \<and> headers_text headerless_table = Some [''institut'', ''kursziel'']
   \<and> header_match headerless_table
   \<and> get_kursziele_table example_web ''https://b.example/kursziele'' = Inr None"
  by (simp add: selector_eval example_defs)

text \<open>
  C4, as amended. On a page without tables the selector returns nothing. On a page with
  tables of which no header list contains the keyword, it returns the first table of the
  page with trimmed labels, no matched column and every cell as pandas read it, provided
  pandas reads that table into a frame with string labels; if reading it raises, the
  selector returns nothing.
\<close>

theorem get_kursziele_table_fallback:
  "(web url = Inr [] \<longrightarrow> get_kursziele_table web url = Inr None)
   \<and> (web url = Inr (t # ts) \<and> (\<forall>x\<in>set (t # ts). \<not> header_match x)
        \<and> read_html t = Inr df \<and> try_map strip_label (columns df) = Inr names
      \<longrightarrow> get_kursziele_table web url =
            Inr (Some \<lparr>nrows = nrows df, cols = zip names (map (map Raw \<circ> snd) (cols df))\<rparr>))
   \<and> (web url = Inr (t # ts) \<and> (\<forall>x\<in>set (t # ts). \<not> header_match x)
        \<and> read_html t = Inl e
      \<longrightarrow> get_kursziele_table web url = Inr None)"
proof (intro conjI impI)
  assume "web url = Inr []"
  then show "get_kursziele_table web url = Inr None"
    by (simp add: get_kursziele_table_def)
next
  assume a: "web url = Inr (t # ts) \<and> (\<forall>x\<in>set (t # ts). \<not> header_match x)
        \<and> read_html t = Inr df \<and> try_map strip_label (columns df) = Inr names"
  then have s: "search_tables (t # ts) = Inr None"
    by (intro search_tables_no_match) simp
  have len: "length names = length (cols df)"
    using a try_map_length [of strip_label "columns df" names] by (simp add: columns_def)
  have "map (\<lambda>(l, vs). (l, map Raw vs)) (zip names (map snd (cols df)))
          = zip names (map (map Raw \<circ> snd) (cols df))"
    using len by (simp add: zip_map2 case_prod_unfold comp_def)
  then show "get_kursziele_table web url =
            Inr (Some \<lparr>nrows = nrows df, cols = zip names (map (map Raw \<circ> snd) (cols df))\<rparr>)"
    using a s by (simp add: get_kursziele_table_def first_table_def strip_columns_def columns_def)
next
  assume a: "web url = Inr (t # ts) \<and> (\<forall>x\<in>set (t # ts). \<not> header_match x)
        \<and> read_html t = Inl e"
  then have s: "search_tables (t # ts) = Inr None"
    by (intro search_tables_no_match) simp
  show "get_kursziele_table web url = Inr None"
    using a s by (simp add: get_kursziele_table_def first_table_def)
qed

theorem get_kursziele_table_fallback_witness:
  "(example_web ''https://f.example/kursziele'' = Inr []
    \<and> get_kursziele_table example_web ''https://f.example/kursziele'' = Inr None)
   \<and> (example_web ''https://d.example/kursziele'' = Inr (plain_table # [menu_table])
      \<and> list_all (\<lambda>x. \<not> header_match x) (plain_table # [menu_table])
      \<and> read_html plain_table = Inr plain_frame
      \<and> try_map strip_label (columns plain_frame) = Inr [Name ''Name'', Name ''Stand'']
      \<and> get_kursziele_table example_web ''https://d.example/kursziele'' =
          Inr (Some \<lparr>nrows = 1,
                     cols = [(Name ''Name'', [Raw (Some ''DAX'')]), (Name ''Stand'', [Raw None])]\<rparr>))
   \<and> (example_web ''https://g.example/kursziele'' = Inr (image_table # [plain_table])
      \<and> list_all (\<lambda>x. \<not> header_match x) (image_table # [plain_table])
      \<and> read_html image_table = Inl ValueError
      \<and> get_kursziele_table example_web ''https://g.example/kursziele'' = Inr None)"
proof -
  have f: "example_web ''https://f.example/kursziele'' = Inr []"
    by (simp add: example_web_def)
  have d: "example_web ''https://d.example/kursziele'' = Inr (plain_table # [menu_table])"
    by (simp add: example_web_def)
  have g: "example_web ''https://g.example/kursziele'' = Inr (image_table # [plain_table])"
    by (simp add: example_web_def)
  have hm: "\<not> header_match plain_table" "\<not> header_match menu_table" "\<not> header_match image_table"
    by (simp_all add: header_match_def headers_text_def plain_table_def menu_table_def
        image_table_def text_eval)
  have rp: "read_html plain_table = Inr plain_frame"
    by (simp add: plain_table_def)
  have sp: "try_map strip_label (columns plain_frame) = Inr [Name ''Name'', Name ''Stand'']"
    by (simp add: columns_def plain_frame_def text_eval)
  have ri: "read_html image_table = Inl ValueError"
    by (simp add: image_table_def)
  have l1: "list_all (\<lambda>x. \<not> header_match x) (plain_table # [menu_table])"
    and l2: "list_all (\<lambda>x. \<not> header_match x) (image_table # [plain_table])"
    using hm by simp_all
  have 1: "get_kursziele_table example_web ''https://f.example/kursziele'' = Inr None"
    using get_kursziele_table_fallback [of example_web "''https://f.example/kursziele''"] f
    by simp
  have 2: "get_kursziele_table example_web ''https://d.example/kursziele'' =
          Inr (Some \<lparr>nrows = 1,
                     cols = [(Name ''Name'', [Raw (Some ''DAX'')]), (Name ''Stand'', [Raw None])]\<rparr>)"
    using get_kursziele_table_fallback [of example_web "''https://d.example/kursziele''"
        plain_table "[menu_table]" plain_frame "[Name ''Name'', Name ''Stand'']"] d hm rp sp
    by (simp add: plain_frame_def)
  have 3: "get_kursziele_table example_web ''https://g.example/kursziele'' = Inr None"
    using get_kursziele_table_fallback [of example_web "''https://g.example/kursziele''"
        image_table "[plain_table]" _ _ ValueError] g hm ri
    by simp
  show ?thesis
    by (intro conjI; fact)
qed

theorem get_kursziele_table_unreadable_counterexample:
  "example_web ''https://g.example/kursziele'' = Inr [image_table, plain_table]
   \<and> \<not> header_match image_table \<and> \<not> header_match plain_table
   \<and> read_html image_table = Inl ValueError
   \<and> get_kursziele_table example_web ''https://g.example/kursziele'' = Inr None"
  by (simp add: selector_eval example_defs)

section \<open>Claim about the output path\<close>

text \<open>
  C8. The path of the output file is computed by two replacements in a row. The second one
  finds \<open>.xls\<close> again in what the first one wrote, so for \<open>foo.xlsx\<close> the result is not
  \<open>foo_kursziele.xlsx\<close>; and a path without \<open>.xls\<close> is returned as it is.
\<close>

theorem output_path_xlsx:
  "output_path ''foo.xlsx'' = ''foo_kursziele_kursziele.xlsxx''
   \<and> output_path ''foo.xlsx'' \<noteq> ''foo_kursziele.xlsx''
   \<and> output_path ''DEPOT.XLSX'' = ''DEPOT.XLSX''"
  by (simp add: output_path_def str_replace_def)

section \<open>Properties of the batch runner\<close>

lemma usable_cases:
  "usable web url = None \<and> (get_kursziele_table web url = Inr None
        \<or> (\<exists>t. get_kursziele_table web url = Inr (Some t) \<and> nrows t = 0))
   \<or> (\<exists>t. usable web url = Some t \<and> get_kursziele_table web url = Inr (Some t) \<and> 0 < nrows t)"
  using get_kursziele_table_Inr [of web url]
  by (auto simp: usable_def split: option.splits)

lemma extract_rows_step:
  "extract_rows web hdr u (row # rows) results trace =
     extract_rows web hdr u rows
       (results @ (case output_of web hdr u row of None \<Rightarrow> [] | Some df \<Rightarrow> [df]))
       (trace @ events_of web hdr u row)"
  using usable_cases [of web "url_of hdr u row"]
  by (auto simp: output_of_def events_of_def Let_def)

lemma extract_rows_eq:
  "extract_rows web hdr u rows results trace =
     (Inr (results @ outputs web hdr u rows), trace @ concat (map (events_of web hdr u) rows))"
proof (induction rows arbitrary: results trace)
  case Nil
  then show ?case by (simp add: outputs_def List.map_filter_simps)
next
  case (Cons row rows)
  show ?case
    unfolding extract_rows_step Cons.IH
    by (simp add: outputs_def List.map_filter_simps split: option.splits)
qed

lemma process_body_eq:
  assumes "excel excel_path sheet_name = Inr sh" and "Name url_column \<in> set (header sh)"
  shows "process_body excel web excel_path sheet_name url_column =
           (let rows = clean_rows (header sh) (Name url_column) (records sh);
                outs = outputs web (header sh) (Name url_column) rows
            in (Inr (if outs = [] then empty_frame else concat_frames outs),
                concat (map (events_of web (header sh) (Name url_column)) rows)))"
  using assms by (simp add: process_body_def extract_rows_eq Let_def)

lemma process_eq:
  assumes "excel excel_path sheet_name = Inr sh" and "Name url_column \<in> set (header sh)"
  shows "process_kursziele_from_excel excel web excel_path sheet_name url_column =
           (let rows = clean_rows (header sh) (Name url_column) (records sh);
                outs = outputs web (header sh) (Name url_column) rows
            in (Inr (if outs = [] then empty_frame else concat_frames outs),
                concat (map (events_of web (header sh) (Name url_column)) rows)))"
  using assms by (simp add: process_kursziele_from_excel_def process_body_eq Let_def)

lemma process_Inr:
  "\<exists>df trace. process_kursziele_from_excel excel web excel_path sheet_name url_column = (Inr df, trace)"
  by (auto simp: process_kursziele_from_excel_def split: prod.splits sum.splits)

lemma outputs_empty_iff:
  "outputs web hdr u rows = [] \<longleftrightarrow> (\<forall>r\<in>set rows. usable web (url_of hdr u r) = None)"
  by (induction rows) (auto simp: outputs_def List.map_filter_simps output_of_def split: option.splits)

lemma outputs_append:
  "outputs web hdr u (xs @ ys) = outputs web hdr u xs @ outputs web hdr u ys"
  by (simp add: outputs_def List.map_filter_def)

lemma outputs_Cons:
  "outputs web hdr u (r # rs) =
     (case usable web (url_of hdr u r) of
        None \<Rightarrow> outputs web hdr u rs
      | Some t \<Rightarrow> tag_table hdr u r (url_of hdr u r) t # outputs web hdr u rs)"
  by (simp add: outputs_def List.map_filter_simps output_of_def split: option.splits)

subsection \<open>Columns\<close>

lemma nrows_set_column [simp]: "nrows (set_column df c v) = nrows df"
  by (simp add: set_column_def)

lemma map_of_overwrite:
  "map_of (map (\<lambda>(l, vs). if l = c then (l, x) else (l, vs)) cs) c' =
     (if c' = c then map_option (\<lambda>_. x) (map_of cs c) else map_of cs c')"
proof (induction cs)
  case Nil
  then show ?case by simp
next
  case (Cons p cs)
  then show ?case by (cases p) auto
qed

lemma map_of_set_column:
  "map_of (cols (set_column df c v)) c' =
     (if c' = c then Some (replicate (nrows df) v) else map_of (cols df) c')"
proof (cases "c \<in> set (columns df)")
  case True
  then obtain y where "map_of (cols df) c = Some y"
    by (auto simp: columns_def dest: weak_map_of_SomeI)
  with True show ?thesis
    by (simp add: set_column_def map_of_overwrite)
next
  case False
  then have "map_of (cols df) c = None"
    by (simp add: columns_def map_of_eq_None_iff)
  with False show ?thesis
    by (simp add: set_column_def map_add_def split: option.splits)
qed

lemma columns_set_column:
  "columns (set_column df c v) = (if c \<in> set (columns df) then columns df else columns df @ [c])"
proof -
  have "fst \<circ> (\<lambda>(l, vs). if l = c then (l, x) else (l, vs)) = fst" for x :: "'a list"
    by (auto simp: fun_eq_iff)
  then show ?thesis
    by (simp add: set_column_def columns_def)
qed

lemma column_of_set_column:
  "column_of (set_column df c v) c' =
     (if c' = c then replicate (nrows df) v else column_of df c')"
  by (simp add: column_of_def map_of_set_column split: option.splits)

lemma foldl_set_column:
  fixes g :: "label \<Rightarrow> cell" and u :: label
  defines "step \<equiv> (\<lambda>t col. if col \<noteq> u then set_column t col (g col) else t)"
  shows "nrows (foldl step t hs) = nrows t"
    and "column_of (foldl step t hs) c =
           (if c \<in> set hs \<and> c \<noteq> u then replicate (nrows t) (g c) else column_of t c)"
    and "set (columns (foldl step t hs)) = set (columns t) \<union> (set hs - {u})"
    and "prefix (columns t) (columns (foldl step t hs))"
proof -
  show n: "nrows (foldl step t hs) = nrows t" for t hs
    by (induction hs arbitrary: t) (auto simp: step_def)
  show "column_of (foldl step t hs) c =
           (if c \<in> set hs \<and> c \<noteq> u then replicate (nrows t) (g c) else column_of t c)"
    by (induction hs arbitrary: t) (auto simp: step_def column_of_set_column)
  show "set (columns (foldl step t hs)) = set (columns t) \<union> (set hs - {u})"
    by (induction hs arbitrary: t) (auto simp: step_def columns_set_column split: if_splits)
  show "prefix (columns t) (columns (foldl step t hs))"
  proof (induction hs arbitrary: t)
    case Nil
    then show ?case by simp
  next
    case (Cons h hs)
    have "prefix (columns t) (columns (step t h))"
      by (simp add: step_def columns_set_column)
    then show ?case
      using Cons [of "step t h"] by (auto intro: prefix_order.trans)
  qed
qed

lemma nrows_tag_table: "nrows (tag_table hdr u row url t) = nrows t"
  unfolding tag_table_def by (simp add: foldl_set_column(1))

lemma column_of_tag_table:
  "column_of (tag_table hdr u row url t) c =
     (if c \<in> set hdr \<and> c \<noteq> u then replicate (nrows t) (Raw (cell_at hdr row c))
      else column_of (set_column t source_url (Raw (Some url))) c)"
  unfolding tag_table_def by (simp add: foldl_set_column(1,2))

lemma columns_tag_table:
  "set (columns (tag_table hdr u row url t)) = set (columns t) \<union> {source_url} \<union> (set hdr - {u})"
  unfolding tag_table_def by (auto simp: foldl_set_column(3) columns_set_column)

lemma prefix_tag_table:
  "prefix (columns (set_column t source_url (Raw (Some url)))) (columns (tag_table hdr u row url t))"
  unfolding tag_table_def by (rule foldl_set_column(4))

subsection \<open>Concatenation\<close>

lemma concat_replicate:
  "concat (map (\<lambda>f. replicate (n f) x) fs) = replicate (sum_list (map n fs)) x"
  by (induction fs) (auto simp: replicate_add)

lemma map_of_tabulate: "map_of (map (\<lambda>c. (c, F c)) xs) c = (if c \<in> set xs then Some (F c) else None)"
  by (induction xs) auto

lemma set_union_columns: "set (union_columns fs) = (\<Union>f\<in>set fs. set (columns f))"
  by (simp add: union_columns_def)

lemma column_of_missing: "c \<notin> set (columns f) \<Longrightarrow> column_of f c = replicate (nrows f) (Raw None)"
  by (simp add: column_of_def columns_def map_of_eq_None_iff [THEN iffD2])

lemma column_of_concat_frames:
  "column_of (concat_frames fs) c = concat (map (\<lambda>f. column_of f c) fs)"
proof (cases "c \<in> set (union_columns fs)")
  case True
  then have "map_of (cols (concat_frames fs)) c = Some (concat (map (\<lambda>f. column_of f c) fs))"
    by (simp add: concat_frames_def map_of_tabulate)
  then show ?thesis
    unfolding column_of_def [of "concat_frames fs"] by simp
next
  case False
  then have "\<forall>f\<in>set fs. column_of f c = replicate (nrows f) (Raw None)"
    by (auto simp: set_union_columns intro: column_of_missing)
  then have m: "map (\<lambda>f. column_of f c) fs = map (\<lambda>f. replicate (nrows f) (Raw None)) fs"
    by simp
  from False have "map_of (cols (concat_frames fs)) c = None"
    by (simp add: concat_frames_def map_of_tabulate)
  then show ?thesis
    unfolding column_of_def [of "concat_frames fs"] m
    by (simp add: concat_replicate concat_frames_def)
qed

lemma concat_frames_Nil: "concat_frames [] = empty_frame"
  by (simp add: concat_frames_def empty_frame_def union_columns_def)

lemma nrows_concat_frames: "nrows (concat_frames fs) = sum_list (map nrows fs)"
  by (simp add: concat_frames_def)

lemma columns_concat_frames: "columns (concat_frames fs) = union_columns fs"
  by (simp add: concat_frames_def columns_def comp_def)

subsection \<open>Outputs and origins\<close>

lemma outputs_Nil: "outputs web hdr u [] = []"
  by (simp add: outputs_def List.map_filter_simps)

lemma origins_Nil: "origins web hdr u [] = []"
  by (simp add: origins_def)

lemma origins_Cons:
  "origins web hdr u (r # rs) =
     (case usable web (url_of hdr u r) of None \<Rightarrow> [] | Some t \<Rightarrow> replicate (nrows t) r)
       @ origins web hdr u rs"
  by (simp add: origins_def)

lemma outputs_filter:
  "outputs web hdr u rows =
     map (\<lambda>r. tag_table hdr u r (url_of hdr u r) (the (usable web (url_of hdr u r))))
       (filter (\<lambda>r. usable web (url_of hdr u r) \<noteq> None) rows)"
  by (induction rows) (auto simp: outputs_Cons outputs_Nil)

lemma length_origins:
  "length (origins web hdr u rows) = sum_list (map nrows (outputs web hdr u rows))"
  by (induction rows)
     (auto simp: origins_Cons outputs_Cons nrows_tag_table origins_Nil outputs_Nil
        split: option.splits)

lemma set_origins: "set (origins web hdr u rows) \<subseteq> set rows"
  by (auto simp: origins_def split: option.splits)

lemma column_of_outputs:
  assumes "\<And>r t. column_of (tag_table hdr u r (url_of hdr u r) t) c = replicate (nrows t) (g r)"
  shows "concat (map (\<lambda>f. column_of f c) (outputs web hdr u rows)) = map g (origins web hdr u rows)"
  by (induction rows)
     (auto simp: origins_Cons outputs_Cons assms origins_Nil outputs_Nil split: option.splits)

lemma usable_cong_process:
  assumes "\<And>x. usable web1 x = usable web2 x"
  shows "process_kursziele_from_excel excel web1 excel_path sheet_name url_column =
         process_kursziele_from_excel excel web2 excel_path sheet_name url_column"
proof -
  have "output_of web1 hdr u = output_of web2 hdr u" for hdr u
    by (simp add: output_of_def fun_eq_iff assms)
  then have "outputs web1 hdr u rows = outputs web2 hdr u rows" for hdr u rows
    by (simp add: outputs_def)
  moreover have "events_of web1 hdr u = events_of web2 hdr u" for hdr u
    by (simp add: events_of_def fun_eq_iff assms)
  ultimately have "extract_rows web1 hdr u rows rs tr = extract_rows web2 hdr u rows rs tr"
    for hdr u rows rs tr
    by (simp add: extract_rows_eq)
  then have "process_body excel web1 excel_path sheet_name url_column =
             process_body excel web2 excel_path sheet_name url_column"
    by (simp add: process_body_def split: sum.splits)
  then show ?thesis
    by (simp add: process_kursziele_from_excel_def)
qed

lemma usable_failed_fetch: "web url = Inl e \<Longrightarrow> usable web url = None"
  by (simp add: usable_def get_kursziele_table_def)

lemma usable_other:
  "x \<noteq> url \<Longrightarrow> usable (web(url := y)) x = usable web x"
  by (simp add: usable_def get_kursziele_table_def)

subsection \<open>The example sheets\<close>

lemma process_result:
  assumes "excel excel_path sheet_name = Inr sh" and "Name url_column \<in> set (header sh)"
  shows "fst (process_kursziele_from_excel excel web excel_path sheet_name url_column) =
           Inr (concat_frames (row_outputs web sh url_column))"
    and "snd (process_kursziele_from_excel excel web excel_path sheet_name url_column) =
           concat (map (events_of web (header sh) (Name url_column)) (input_rows sh url_column))"
  using assms
  by (simp_all add: process_eq Let_def row_outputs_def input_rows_def concat_frames_Nil)

lemma example_page_a:
  "get_kursziele_table example_web ''https://a.example/kursziele'' = Inr (Some kursziel_extract)"
  by (simp add: selector_eval example_defs kursziel_extract_def)

lemma example_page_e:
  "get_kursziele_table example_web ''https://e.example/kursziele'' =
     Inr (Some \<lparr>nrows = 0, cols = [(Name ''Institut'', []), (Name ''Kursziel'', [])]\<rparr>)"
  by (simp add: selector_eval example_defs)

lemma example_page_x: "example_web ''https://x.example/kursziele'' = Inl RequestException"
  by (simp add: example_web_def)

lemma example_usable:
  "usable example_web ''https://a.example/kursziele'' = Some kursziel_extract"
  "usable example_web ''https://e.example/kursziele'' = None"
  "usable example_web ''https://x.example/kursziele'' = None"
proof -
  show "usable example_web ''https://a.example/kursziele'' = Some kursziel_extract"
    by (simp add: usable_def example_page_a) (simp add: kursziel_extract_def)
  show "usable example_web ''https://e.example/kursziele'' = None"
    by (simp add: usable_def example_page_e)
  show "usable example_web ''https://x.example/kursziele'' = None"
    using example_page_x by (rule usable_failed_fetch)
qed

lemma example_input_rows:
  "input_rows example_sheet ''Url'' =
     [[Some ''https://x.example/kursziele'', Some ''514000''],
      [Some ''https://a.example/kursziele'', Some ''703000''],
      [Some ''https://e.example/kursziele'', Some ''840400'']]"
  "input_rows offline_sheet ''Url'' =
     [[Some ''https://x.example/kursziele''], [Some ''https://e.example/kursziele'']]"
  "input_rows tagged_sheet ''Url'' = [[Some ''https://a.example/kursziele'', Some ''intern'']]"
  by (simp_all add: input_rows_def clean_rows_def cell_at_def example_sheet_def offline_sheet_def
      tagged_sheet_def text_eval)

lemmas frame_eval =
  tag_table_def set_column_def columns_def source_url_def cell_at_def url_of_def
  concat_frames_def union_columns_def column_of_def kursziel_extract_def

lemma example_row_outputs:
  "row_outputs example_web example_sheet ''Url'' =
     [\<lparr>nrows = 1,
       cols = [(Name ''Institut'', [Raw (Some ''Bank A'')]),
               (Name ''Kursziel'', [Parsed (Some (Finite (12350 / 100)))]),
               (Name ''Datum'', [Raw (Some ''2024-01-01'')]),
               (Name ''Source_URL'', [Raw (Some ''https://a.example/kursziele'')]),
               (Name ''WKN'', [Raw (Some ''703000'')])]\<rparr>]"
proof -
  have u: "url_of (header example_sheet) (Name ''Url'') r = (case hd r of Some s \<Rightarrow> s | None \<Rightarrow> [])"
    if "length r = 2" for r
    using that by (cases r) (auto simp: url_of_def cell_at_def example_sheet_def split: option.splits)
  show ?thesis
    by (simp add: row_outputs_def example_input_rows outputs_Cons outputs_Nil u example_usable)
       (simp add: frame_eval example_sheet_def)
qed

lemma example_result:
  "fst (process_kursziele_from_excel example_excel example_web ''input.xlsx'' ''Kursziele_Input'' ''Url'') =
     Inr \<lparr>nrows = 1,
          cols = [(Name ''Institut'', [Raw (Some ''Bank A'')]),
                  (Name ''Kursziel'', [Parsed (Some (Finite (12350 / 100)))]),
                  (Name ''Datum'', [Raw (Some ''2024-01-01'')]),
                  (Name ''Source_URL'', [Raw (Some ''https://a.example/kursziele'')]),
                  (Name ''WKN'', [Raw (Some ''703000'')])]\<rparr>"
proof -
  have "example_excel ''input.xlsx'' ''Kursziele_Input'' = Inr example_sheet"
    by (simp add: example_excel_def)
  moreover have "Name ''Url'' \<in> set (header example_sheet)"
    by (simp add: example_sheet_def)
  ultimately have "fst (process_kursziele_from_excel example_excel example_web ''input.xlsx''
      ''Kursziele_Input'' ''Url'') = Inr (concat_frames (row_outputs example_web example_sheet ''Url''))"
    by (rule process_result(1))
  then show ?thesis
    by (simp add: example_row_outputs) (simp add: concat_frames_def union_columns_def columns_def column_of_def)
qed

lemma example_trace:
  "snd (process_kursziele_from_excel example_excel example_web ''input.xlsx'' ''Kursziele_Input'' ''Url'') =
     [Request ''https://x.example/kursziele'', Request ''https://a.example/kursziele'', Sleep 1,
      Request ''https://e.example/kursziele'']"
proof -
  have "example_excel ''input.xlsx'' ''Kursziele_Input'' = Inr example_sheet"
    by (simp add: example_excel_def)
  moreover have "Name ''Url'' \<in> set (header example_sheet)"
    by (simp add: example_sheet_def)
  ultimately have "snd (process_kursziele_from_excel example_excel example_web ''input.xlsx''
      ''Kursziele_Input'' ''Url'') =
        concat (map (events_of example_web (header example_sheet) (Name ''Url''))
          (input_rows example_sheet ''Url''))"
    by (rule process_result(2))
  moreover have "url_of (header example_sheet) (Name ''Url'') [Some s, w] = s" for s w
    by (simp add: url_of_def cell_at_def example_sheet_def)
  ultimately show ?thesis
    by (simp add: example_input_rows events_of_def example_usable)
qed

section \<open>Claims about the batch runner\<close>

text \<open>
  C5. When the sheet is read and has the address column, the result is the concatenation
  of the output frames of the rows that succeed, where a row succeeds when its page gives a
  table with at least one row; the frames are those of the succeeding rows in the order of
  the sheet, the rows of the result are theirs in that order (every column of the result is
  the corresponding columns one after the other, a frame without that column standing for
  missing values), and when no row succeeds the result is the empty frame, returned and
  not raised.
\<close>

theorem result_is_concatenation:
  assumes "excel excel_path sheet_name = Inr sh" and "Name url_column \<in> set (header sh)"
  shows "fst (process_kursziele_from_excel excel web excel_path sheet_name url_column) =
           Inr (concat_frames (row_outputs web sh url_column))
     \<and> row_outputs web sh url_column =
           map (\<lambda>r. tag_table (header sh) (Name url_column) r (address sh url_column r)
                      (the (usable web (address sh url_column r))))
             (filter (succeeds web sh url_column) (input_rows sh url_column))
     \<and> nrows (concat_frames (row_outputs web sh url_column)) =
           sum_list (map nrows (row_outputs web sh url_column))
     \<and> (\<forall>c. column_of (concat_frames (row_outputs web sh url_column)) c =
              concat (map (\<lambda>f. column_of f c) (row_outputs web sh url_column)))
     \<and> (filter (succeeds web sh url_column) (input_rows sh url_column) = [] \<longrightarrow>
          fst (process_kursziele_from_excel excel web excel_path sheet_name url_column) =
            Inr empty_frame)"
proof -
  have 1: "fst (process_kursziele_from_excel excel web excel_path sheet_name url_column) =
           Inr (concat_frames (row_outputs web sh url_column))"
    using assms by (rule process_result(1))
  have 2: "row_outputs web sh url_column =
           map (\<lambda>r. tag_table (header sh) (Name url_column) r (address sh url_column r)
                      (the (usable web (address sh url_column r))))
             (filter (succeeds web sh url_column) (input_rows sh url_column))"
    by (simp add: row_outputs_def outputs_filter address_def succeeds_def [abs_def])
  have 3: "filter (succeeds web sh url_column) (input_rows sh url_column) = [] \<longrightarrow>
          fst (process_kursziele_from_excel excel web excel_path sheet_name url_column) =
            Inr empty_frame"
    unfolding 1 2 by (simp add: concat_frames_Nil)
  show ?thesis
    using 1 2 3 by (simp add: nrows_concat_frames column_of_concat_frames)
qed

theorem result_is_concatenation_witness:
  "example_excel ''input.xlsx'' ''Kursziele_Input'' = Inr example_sheet
   \<and> Name ''Url'' \<in> set (header example_sheet)
   \<and> filter (succeeds example_web example_sheet ''Url'') (input_rows example_sheet ''Url'') =
        [[Some ''https://a.example/kursziele'', Some ''703000'']]
   \<and> fst (process_kursziele_from_excel example_excel example_web ''input.xlsx'' ''Kursziele_Input'' ''Url'') =
        Inr (concat_frames (row_outputs example_web example_sheet ''Url''))
   \<and> nrows (concat_frames (row_outputs example_web example_sheet ''Url'')) = 1
   \<and> example_excel ''offline.xlsx'' ''Kursziele_Input'' = Inr offline_sheet
   \<and> Name ''Url'' \<in> set (header offline_sheet)
   \<and> filter (succeeds example_web offline_sheet ''Url'') (input_rows offline_sheet ''Url'') = []
   \<and> fst (process_kursziele_from_excel example_excel example_web ''offline.xlsx'' ''Kursziele_Input'' ''Url'') =
        Inr empty_frame"
proof -
  have 1: "example_excel ''input.xlsx'' ''Kursziele_Input'' = Inr example_sheet"
    and 2: "example_excel ''offline.xlsx'' ''Kursziele_Input'' = Inr offline_sheet"
    by (simp_all add: example_excel_def)
  have 3: "Name ''Url'' \<in> set (header example_sheet)" and 4: "Name ''Url'' \<in> set (header offline_sheet)"
    by (simp_all add: example_sheet_def offline_sheet_def)
  have u: "url_of (header example_sheet) (Name ''Url'') [Some s, w] = s" for s w
    by (simp add: url_of_def cell_at_def example_sheet_def)
  have v: "url_of (header offline_sheet) (Name ''Url'') [Some s] = s" for s
    by (simp add: url_of_def cell_at_def offline_sheet_def)
  have 5: "filter (succeeds example_web example_sheet ''Url'') (input_rows example_sheet ''Url'') =
        [[Some ''https://a.example/kursziele'', Some ''703000'']]"
    by (simp add: example_input_rows succeeds_def address_def u example_usable)
  have 6: "filter (succeeds example_web offline_sheet ''Url'') (input_rows offline_sheet ''Url'') = []"
    by (simp add: example_input_rows succeeds_def address_def v example_usable)
  have 7: "nrows (concat_frames (row_outputs example_web example_sheet ''Url'')) = 1"
    by (simp add: example_row_outputs nrows_concat_frames)
  note a = result_is_concatenation [of example_excel "''input.xlsx''" "''Kursziele_Input''"
        example_sheet "''Url''" example_web, OF 1 3]
  note b = result_is_concatenation [of example_excel "''offline.xlsx''" "''Kursziele_Input''"
        offline_sheet "''Url''" example_web, OF 2 4]
  have 8: "fst (process_kursziele_from_excel example_excel example_web ''input.xlsx''
      ''Kursziele_Input'' ''Url'') = Inr (concat_frames (row_outputs example_web example_sheet ''Url''))"
    using a by (rule conjunct1)
  have 9: "fst (process_kursziele_from_excel example_excel example_web ''offline.xlsx''
      ''Kursziele_Input'' ''Url'') = Inr empty_frame"
    using b 6 by blast
  show ?thesis
    by (intro conjI; fact)
qed

text \<open>
  C6, as amended. Every row of the result comes from one input row, its origin, which is
  a row of the cleaned sheet. It carries in every column named like a non-address column
  of the sheet the value its origin has there. Its \<open>Source_URL\<close> is the address of its
  origin, the address the page was fetched from, unless the sheet has a non-address column
  named \<open>Source_URL\<close>: then it holds the value of that column.
\<close>

theorem rows_carry_their_input_row:
  assumes "excel excel_path sheet_name = Inr sh" and "Name url_column \<in> set (header sh)"
  shows "fst (process_kursziele_from_excel excel web excel_path sheet_name url_column) =
           Inr (concat_frames (row_outputs web sh url_column))
     \<and> length (row_origins web sh url_column) = nrows (concat_frames (row_outputs web sh url_column))
     \<and> set (row_origins web sh url_column) \<subseteq> set (input_rows sh url_column)
     \<and> (\<forall>c\<in>set (header sh). c \<noteq> Name url_column \<longrightarrow>
          column_of (concat_frames (row_outputs web sh url_column)) c =
            map (\<lambda>r. Raw (cell_at (header sh) r c)) (row_origins web sh url_column))
     \<and> ((source_url \<in> set (header sh) \<longrightarrow> source_url = Name url_column) \<longrightarrow>
          column_of (concat_frames (row_outputs web sh url_column)) source_url =
            map (\<lambda>r. Raw (Some (address sh url_column r))) (row_origins web sh url_column))"
proof -
  let ?h = "header sh" and ?u = "Name url_column"
  have 1: "fst (process_kursziele_from_excel excel web excel_path sheet_name url_column) =
           Inr (concat_frames (row_outputs web sh url_column))"
    using assms by (rule process_result(1))
  have 2: "length (row_origins web sh url_column) =
             nrows (concat_frames (row_outputs web sh url_column))"
    by (simp add: row_origins_def row_outputs_def length_origins nrows_concat_frames)
  have 3: "set (row_origins web sh url_column) \<subseteq> set (input_rows sh url_column)"
    by (simp add: row_origins_def set_origins)
  have 4: "column_of (concat_frames (row_outputs web sh url_column)) c =
            map (\<lambda>r. Raw (cell_at ?h r c)) (row_origins web sh url_column)"
    if "c \<in> set ?h" "c \<noteq> ?u" for c
    unfolding column_of_concat_frames row_outputs_def row_origins_def
    by (rule column_of_outputs) (simp add: column_of_tag_table that)
  have 5: "column_of (concat_frames (row_outputs web sh url_column)) source_url =
            map (\<lambda>r. Raw (Some (address sh url_column r))) (row_origins web sh url_column)"
    if "source_url \<in> set ?h \<longrightarrow> source_url = ?u"
    unfolding column_of_concat_frames row_outputs_def row_origins_def address_def
    by (rule column_of_outputs) (use that in \<open>auto simp: column_of_tag_table column_of_set_column\<close>)
  show ?thesis
    using 1 2 3 4 5 by blast
qed

theorem rows_carry_their_input_row_witness:
  "example_excel ''input.xlsx'' ''Kursziele_Input'' = Inr example_sheet
   \<and> Name ''Url'' \<in> set (header example_sheet)
   \<and> Name ''WKN'' \<in> set (header example_sheet) \<and> Name ''WKN'' \<noteq> Name ''Url''
   \<and> source_url \<notin> set (header example_sheet)
   \<and> row_origins example_web example_sheet ''Url'' = [[Some ''https://a.example/kursziele'', Some ''703000'']]
   \<and> column_of (concat_frames (row_outputs example_web example_sheet ''Url'')) (Name ''WKN'') =
        [Raw (Some ''703000'')]
   \<and> column_of (concat_frames (row_outputs example_web example_sheet ''Url'')) source_url =
        [Raw (Some ''https://a.example/kursziele'')]"
proof -
  have 1: "example_excel ''input.xlsx'' ''Kursziele_Input'' = Inr example_sheet"
    by (simp add: example_excel_def)
  have 2: "Name ''Url'' \<in> set (header example_sheet)"
    and 3: "Name ''WKN'' \<in> set (header example_sheet)"
    and 4: "source_url \<notin> set (header example_sheet)"
    by (simp_all add: example_sheet_def source_url_def)
  have u: "url_of (header example_sheet) (Name ''Url'') [Some s, w] = s" for s w
    by (simp add: url_of_def cell_at_def example_sheet_def)
  have 5: "row_origins example_web example_sheet ''Url'' =
             [[Some ''https://a.example/kursziele'', Some ''703000'']]"
    by (simp add: row_origins_def example_input_rows origins_Cons origins_Nil u example_usable)
       (simp add: kursziel_extract_def)
  have 6: "cell_at (header example_sheet) [Some ''https://a.example/kursziele'', Some ''703000''] (Name ''WKN'')
             = Some ''703000''"
    by (simp add: cell_at_def example_sheet_def)
  have 7: "address example_sheet ''Url'' [Some ''https://a.example/kursziele'', Some ''703000'']
             = ''https://a.example/kursziele''"
    by (simp add: address_def u)
  show ?thesis
    using rows_carry_their_input_row [of example_excel "''input.xlsx''" "''Kursziele_Input''"
        example_sheet "''Url''" example_web, OF 1 2] 1 2 3 4 5 6 7
    by auto
qed

theorem source_url_overwritten_counterexample:
  "example_excel ''tagged.xlsx'' ''Kursziele_Input'' = Inr tagged_sheet
   \<and> input_rows tagged_sheet ''Url'' = [[Some ''https://a.example/kursziele'', Some ''intern'']]
   \<and> fst (process_kursziele_from_excel example_excel example_web ''tagged.xlsx'' ''Kursziele_Input'' ''Url'') =
        Inr \<lparr>nrows = 1,
             cols = [(Name ''Institut'', [Raw (Some ''Bank A'')]),
                     (Name ''Kursziel'', [Parsed (Some (Finite (12350 / 100)))]),
                     (Name ''Datum'', [Raw (Some ''2024-01-01'')]),
                     (Name ''Source_URL'', [Raw (Some ''intern'')])]\<rparr>"
proof -
  have 1: "example_excel ''tagged.xlsx'' ''Kursziele_Input'' = Inr tagged_sheet"
    by (simp add: example_excel_def)
  have 2: "Name ''Url'' \<in> set (header tagged_sheet)"
    by (simp add: tagged_sheet_def)
  have u: "url_of (header tagged_sheet) (Name ''Url'') [Some s, w] = s" for s w
    by (simp add: url_of_def cell_at_def tagged_sheet_def)
  have 3: "row_outputs example_web tagged_sheet ''Url'' =
     [\<lparr>nrows = 1,
       cols = [(Name ''Institut'', [Raw (Some ''Bank A'')]),
               (Name ''Kursziel'', [Parsed (Some (Finite (12350 / 100)))]),
               (Name ''Datum'', [Raw (Some ''2024-01-01'')]),
               (Name ''Source_URL'', [Raw (Some ''intern'')])]\<rparr>]"
    by (simp add: row_outputs_def example_input_rows outputs_Cons outputs_Nil u example_usable)
       (simp add: frame_eval tagged_sheet_def)
  have "fst (process_kursziele_from_excel example_excel example_web ''tagged.xlsx''
      ''Kursziele_Input'' ''Url'') = Inr (concat_frames (row_outputs example_web tagged_sheet ''Url''))"
    using 1 2 by (rule process_result(1))
  then show ?thesis
    using 1 by (simp add: 3 example_input_rows)
      (simp add: concat_frames_def union_columns_def columns_def column_of_def)
qed

text \<open>
  C7. When the input file is not found the batch returns the empty frame, having done
  nothing, and does not raise; the function returns a frame whatever its inputs are. Once
  the sheet is read and has the address column, no exception leaves the loop whatever the
  web and the pages are: the selector returns for every address, a failed request gives no
  table, and a row that gives none is skipped, the frames collected from the rows before
  and after it being the same as without it.
\<close>

theorem failures_are_isolated:
  "(excel excel_path sheet_name = Inl FileNotFoundError \<longrightarrow>
      process_kursziele_from_excel excel web excel_path sheet_name url_column = (Inr empty_frame, []))
   \<and> (\<exists>df trace. process_kursziele_from_excel excel web excel_path sheet_name url_column = (Inr df, trace))
   \<and> (excel excel_path sheet_name = Inr sh \<and> Name url_column \<in> set (header sh) \<longrightarrow>
        (\<exists>df trace. process_body excel web excel_path sheet_name url_column = (Inr df, trace)))
   \<and> (\<exists>r. get_kursziele_table web url = Inr r)
   \<and> (web url = Inl e \<longrightarrow> get_kursziele_table web url = Inr None \<and> usable web url = None)
   \<and> (usable web (url_of hdr u row) = None \<longrightarrow>
        fst (extract_rows web hdr u (xs @ row # ys) results trace) =
        fst (extract_rows web hdr u (xs @ ys) results trace))"
proof (intro conjI impI)
  assume "excel excel_path sheet_name = Inl FileNotFoundError"
  then show "process_kursziele_from_excel excel web excel_path sheet_name url_column = (Inr empty_frame, [])"
    by (simp add: process_kursziele_from_excel_def process_body_def)
next
  show "\<exists>df trace. process_kursziele_from_excel excel web excel_path sheet_name url_column = (Inr df, trace)"
    by (rule process_Inr)
next
  assume "excel excel_path sheet_name = Inr sh \<and> Name url_column \<in> set (header sh)"
  then show "\<exists>df trace. process_body excel web excel_path sheet_name url_column = (Inr df, trace)"
    by (simp add: process_body_eq Let_def)
next
  show "\<exists>r. get_kursziele_table web url = Inr r"
    by (rule get_kursziele_table_Inr)
next
  assume "web url = Inl e"
  then show "get_kursziele_table web url = Inr None"
    by (simp add: get_kursziele_table_def)
next
  assume "web url = Inl e"
  then show "usable web url = None"
    by (rule usable_failed_fetch)
next
  assume "usable web (url_of hdr u row) = None"
  then have "outputs web hdr u (xs @ row # ys) = outputs web hdr u (xs @ ys)"
    by (simp add: outputs_append outputs_Cons)
  then show "fst (extract_rows web hdr u (xs @ row # ys) results trace) =
        fst (extract_rows web hdr u (xs @ ys) results trace)"
    by (simp add: extract_rows_eq)
qed

theorem failures_are_isolated_witness:
  "example_excel ''missing.xlsx'' ''Kursziele_Input'' = Inl FileNotFoundError
   \<and> process_kursziele_from_excel example_excel example_web ''missing.xlsx'' ''Kursziele_Input'' ''Url''
        = (Inr empty_frame, [])
   \<and> example_excel ''input.xlsx'' ''Kursziele_Input'' = Inr example_sheet
   \<and> Name ''Url'' \<in> set (header example_sheet)
   \<and> (\<exists>df trace. process_body example_excel example_web ''input.xlsx'' ''Kursziele_Input'' ''Url'' = (Inr df, trace))
   \<and> example_web ''https://x.example/kursziele'' = Inl RequestException
   \<and> get_kursziele_table example_web ''https://x.example/kursziele'' = Inr None
   \<and> usable example_web (url_of (header example_sheet) (Name ''Url'') [Some ''https://x.example/kursziele'', Some ''514000'']) = None
   \<and> fst (extract_rows example_web (header example_sheet) (Name ''Url'')
            ([] @ [Some ''https://x.example/kursziele'', Some ''514000'']
               # [[Some ''https://a.example/kursziele'', Some ''703000'']]) [] [])
      = fst (extract_rows example_web (header example_sheet) (Name ''Url'')
            ([] @ [[Some ''https://a.example/kursziele'', Some ''703000'']]) [] [])"
proof -
  have 1: "example_excel ''missing.xlsx'' ''Kursziele_Input'' = Inl FileNotFoundError"
    and 2: "example_excel ''input.xlsx'' ''Kursziele_Input'' = Inr example_sheet"
    by (simp_all add: example_excel_def)
  have 3: "Name ''Url'' \<in> set (header example_sheet)"
    by (simp add: example_sheet_def)
  have u: "url_of (header example_sheet) (Name ''Url'') [Some s, w] = s" for s w
    by (simp add: url_of_def cell_at_def example_sheet_def)
  have 4: "usable example_web (url_of (header example_sheet) (Name ''Url'')
             [Some ''https://x.example/kursziele'', Some ''514000'']) = None"
    by (simp add: u example_usable)
  note a = failures_are_isolated [of example_excel "''missing.xlsx''" "''Kursziele_Input''"
      example_web "''Url''" example_sheet "''https://x.example/kursziele''" RequestException]
  note b = failures_are_isolated [of example_excel "''input.xlsx''" "''Kursziele_Input''"
      example_web "''Url''" example_sheet "''https://x.example/kursziele''" RequestException
      "header example_sheet" "Name ''Url''" "[Some ''https://x.example/kursziele'', Some ''514000'']"
      "[]" "[[Some ''https://a.example/kursziele'', Some ''703000'']]" "[]" "[]"]
  show ?thesis
    using a b 1 2 3 4 example_page_x by simp
qed

text \<open>
  C9. A row whose page gives a table without data rows is treated exactly like a row whose
  request fails: replacing its page by a failed request changes neither the result nor the
  trace of the batch. In both cases the step of the loop leaves the collected frames as
  they are and adds the request alone to the trace, without a pause.
\<close>

theorem empty_table_like_failed_fetch:
  assumes "get_kursziele_table web url = Inr (Some df)" and "nrows df = 0"
  shows "process_kursziele_from_excel excel (web(url := Inl e)) excel_path sheet_name url_column =
         process_kursziele_from_excel excel web excel_path sheet_name url_column
     \<and> (url_of hdr u row = url \<longrightarrow>
          extract_rows web hdr u (row # rows) results trace =
          extract_rows web hdr u rows results (trace @ [Request url]))
     \<and> (url_of hdr u row = url \<longrightarrow>
          extract_rows (web(url := Inl e)) hdr u (row # rows) results trace =
          extract_rows (web(url := Inl e)) hdr u rows results (trace @ [Request url]))"
proof -
  have u: "usable web url = None"
    using assms by (simp add: usable_def)
  have u': "usable (web(url := Inl e)) url = None"
    by (rule usable_failed_fetch) simp
  have "usable (web(url := Inl e)) x = usable web x" for x
    using u u' usable_other [of x url web "Inl e"] by (cases "x = url") simp_all
  then have 1: "process_kursziele_from_excel excel (web(url := Inl e)) excel_path sheet_name url_column =
         process_kursziele_from_excel excel web excel_path sheet_name url_column"
    by (rule usable_cong_process)
  have 2: "extract_rows w hdr u (row # rows) results trace =
          extract_rows w hdr u rows results (trace @ [Request url])"
    if "url_of hdr u row = url" "usable w url = None" for w
    using that by (subst extract_rows_step) (simp add: output_of_def events_of_def)
  show ?thesis
    using 1 2 [OF _ u] 2 [OF _ u'] by blast
qed

theorem empty_table_like_failed_fetch_witness:
  "get_kursziele_table example_web ''https://e.example/kursziele'' =
     Inr (Some \<lparr>nrows = 0, cols = [(Name ''Institut'', []), (Name ''Kursziel'', [])]\<rparr>)
   \<and> nrows (\<lparr>nrows = 0, cols = [(Name ''Institut'', []), (Name ''Kursziel'', [])]\<rparr> :: cell frame) = 0
   \<and> process_kursziele_from_excel example_excel
        (example_web(''https://e.example/kursziele'' := Inl RequestException))
        ''input.xlsx'' ''Kursziele_Input'' ''Url''
      = process_kursziele_from_excel example_excel example_web ''input.xlsx'' ''Kursziele_Input'' ''Url''
   \<and> snd (process_kursziele_from_excel example_excel example_web ''input.xlsx'' ''Kursziele_Input'' ''Url'')
      = [Request ''https://x.example/kursziele'', Request ''https://a.example/kursziele'', Sleep 1,
         Request ''https://e.example/kursziele'']
   \<and> url_of (header example_sheet) (Name ''Url'') [Some ''https://e.example/kursziele'', Some ''840400'']
      = ''https://e.example/kursziele''
   \<and> extract_rows example_web (header example_sheet) (Name ''Url'')
        ([Some ''https://e.example/kursziele'', Some ''840400''] # []) [] []
      = (Inr [], [Request ''https://e.example/kursziele''])"
proof -
  have u: "url_of (header example_sheet) (Name ''Url'') [Some s, w] = s" for s w
    by (simp add: url_of_def cell_at_def example_sheet_def)
  show ?thesis
    using empty_table_like_failed_fetch [of example_web "''https://e.example/kursziele''"
        "\<lparr>nrows = 0, cols = [(Name ''Institut'', []), (Name ''Kursziel'', [])]\<rparr>"
        example_excel RequestException
        "''input.xlsx''" "''Kursziele_Input''" "''Url''" "header example_sheet" "Name ''Url''"
        "[Some ''https://e.example/kursziele'', Some ''840400'']" "[]" "[]" "[]", OF example_page_e]
      example_page_e example_trace u
    by simp
qed

text \<open>
  C10, as amended. In the table that the selector returned, each column named like a
  non-address column of the input row holds that row's value in every row afterwards; a
  column named \<open>Source_URL\<close> that is not named like a non-address column of the input row
  holds the address (line 146); every other column is unchanged. The number of rows and
  the order of the columns of the table are unchanged.
\<close>

theorem input_columns_overwrite:
  "nrows (tag_table hdr u row url t) = nrows t
   \<and> prefix (columns t) (columns (tag_table hdr u row url t))
   \<and> (\<forall>c\<in>set (columns t).
        (c \<in> set hdr \<and> c \<noteq> u \<longrightarrow>
           column_of (tag_table hdr u row url t) c = replicate (nrows t) (Raw (cell_at hdr row c)))
        \<and> ((c \<notin> set hdr \<or> c = u) \<and> c = source_url \<longrightarrow>
           column_of (tag_table hdr u row url t) c = replicate (nrows t) (Raw (Some url)))
        \<and> ((c \<notin> set hdr \<or> c = u) \<and> c \<noteq> source_url \<longrightarrow>
           column_of (tag_table hdr u row url t) c = column_of t c))"
proof -
  have "prefix (columns t) (columns (set_column t source_url (Raw (Some url))))"
    by (simp add: columns_set_column)
  then have "prefix (columns t) (columns (tag_table hdr u row url t))"
    using prefix_tag_table [of t url hdr u row] by (rule prefix_order.trans)
  then show ?thesis
    by (auto simp: nrows_tag_table column_of_tag_table column_of_set_column)
qed

theorem input_columns_overwrite_witness:
  "Name ''Institut'' \<in> set (columns kursziel_extract)
   \<and> Name ''Institut'' \<in> set depot_header \<and> Name ''Institut'' \<noteq> Name ''Url''
   \<and> column_of (tag_table depot_header (Name ''Url'') depot_row ''https://a.example/kursziele'' kursziel_extract)
        (Name ''Institut'') = [Raw (Some ''Depot'')]
   \<and> Name ''Kursziel'' \<in> set (columns kursziel_extract)
   \<and> Name ''Kursziel'' \<notin> set depot_header \<and> Name ''Kursziel'' \<noteq> source_url
   \<and> column_of (tag_table depot_header (Name ''Url'') depot_row ''https://a.example/kursziele'' kursziel_extract)
        (Name ''Kursziel'') = [Parsed (Some (Finite (12350 / 100)))]
   \<and> source_url \<in> set (columns linked_extract)
   \<and> source_url \<notin> set [Name ''Url'', Name ''WKN'']
   \<and> column_of (tag_table [Name ''Url'', Name ''WKN''] (Name ''Url'')
          [Some ''https://a.example/kursziele'', Some ''703000''] ''https://a.example/kursziele'' linked_extract)
        source_url = [Raw (Some ''https://a.example/kursziele'')]
   \<and> source_url \<in> set depot_header \<and> source_url \<noteq> Name ''Url''
   \<and> column_of (tag_table depot_header (Name ''Url'') depot_row ''https://a.example/kursziele'' linked_extract)
        source_url = [Raw (Some ''intern'')]"
proof -
  let ?a = "''https://a.example/kursziele''"
  note k = input_columns_overwrite [of depot_header "Name ''Url''" depot_row ?a kursziel_extract]
  note l = input_columns_overwrite [of "[Name ''Url'', Name ''WKN'']" "Name ''Url''"
      "[Some ''https://a.example/kursziele'', Some ''703000'']" ?a linked_extract]
  note m = input_columns_overwrite [of depot_header "Name ''Url''" depot_row ?a linked_extract]
  have 1: "Name ''Institut'' \<in> set (columns kursziel_extract)"
    and 2: "Name ''Kursziel'' \<in> set (columns kursziel_extract)"
    and 3: "source_url \<in> set (columns linked_extract)"
    by (simp_all add: kursziel_extract_def linked_extract_def columns_def source_url_def)
  have 4: "Name ''Institut'' \<in> set depot_header" and 5: "Name ''Institut'' \<noteq> Name ''Url''"
    and 6: "Name ''Kursziel'' \<notin> set depot_header" and 7: "Name ''Kursziel'' \<noteq> source_url"
    and 8: "source_url \<notin> set [Name ''Url'', Name ''WKN'']"
    and 9: "source_url \<in> set depot_header" and 10: "source_url \<noteq> Name ''Url''"
    by (simp_all add: depot_header_def source_url_def)
  have c: "cell_at depot_header depot_row (Name ''Institut'') = Some ''Depot''"
    "cell_at depot_header depot_row source_url = Some ''intern''"
    by (simp_all add: cell_at_def depot_header_def depot_row_def source_url_def)
  have n: "nrows kursziel_extract = 1" "nrows linked_extract = 1"
    by (simp_all add: kursziel_extract_def linked_extract_def)
  have o: "column_of kursziel_extract (Name ''Kursziel'') = [Parsed (Some (Finite (12350 / 100)))]"
    by (simp add: column_of_def kursziel_extract_def)
  have 11: "column_of (tag_table depot_header (Name ''Url'') depot_row ?a kursziel_extract)
        (Name ''Institut'') = [Raw (Some ''Depot'')]"
    using k 1 4 5 by (auto simp: c n)
  have 12: "column_of (tag_table depot_header (Name ''Url'') depot_row ?a kursziel_extract)
        (Name ''Kursziel'') = [Parsed (Some (Finite (12350 / 100)))]"
    using k 2 6 7 by (auto simp: o)
  have 13: "column_of (tag_table [Name ''Url'', Name ''WKN''] (Name ''Url'')
          [Some ''https://a.example/kursziele'', Some ''703000''] ?a linked_extract)
        source_url = [Raw (Some ''https://a.example/kursziele'')]"
    using l 3 8 by (auto simp: n)
  have 14: "column_of (tag_table depot_header (Name ''Url'') depot_row ?a linked_extract)
        source_url = [Raw (Some ''intern'')]"
    using m 3 9 10 by (auto simp: c n)
  show ?thesis
    by (intro conjI; fact)
qed

theorem source_url_column_counterexample:
  "source_url \<in> set (columns linked_extract)
   \<and> source_url \<notin> set [Name ''Url'', Name ''WKN'']
   \<and> column_of linked_extract source_url = [Raw (Some ''orig'')]
   \<and> column_of (tag_table [Name ''Url'', Name ''WKN''] (Name ''Url'')
          [Some ''https://a.example/kursziele'', Some ''703000''] ''https://a.example/kursziele'' linked_extract)
        source_url = [Raw (Some ''https://a.example/kursziele'')]"
  by (simp add: frame_eval linked_extract_def)

end
